theory Spec2Isabelle
  imports Complex_Main "HOL-Library.Sublist" "HOL-Library.Multiset" "HOL-Library.Option_ord"
begin

chapter \<open>chainsaw: a shallow embedding of the ingestion pipeline, the store and the Cypher transpiler\<close>

text \<open>
  Conventions of the embedding.
  \<^item> Go strings are byte strings: \<open>string\<close> (a \<open>char list\<close>); \<open>len\<close> is \<open>length\<close>.
  \<^item> Go \<open>int\<close> and \<open>int64\<close> values that are identifiers or user-supplied numbers are
    \<open>int\<close>; byte offsets and lengths, which the code keeps non-negative, are \<open>nat\<close>.
    No claim depends on 64-bit overflow.
  \<^item> A Go \<open>(value, error)\<close> result is a sum: \<open>Inl\<close> carries the error.
  \<^item> A nil-able pointer is an \<open>option\<close>.
  \<^item> The SQLite store is modelled by its tables (lists of rows); a statement is the
    function on tables that the SQL text denotes.
\<close>

section \<open>Strings\<close>

definition nl :: char where
  "nl = CHR 0x0A"

definition HasPrefix :: "string \<Rightarrow> string \<Rightarrow> bool" where
  "HasPrefix s p = (take (length p) s = p)"

definition HasSuffix :: "string \<Rightarrow> string \<Rightarrow> bool" where
  "HasSuffix s p = (length p \<le> length s \<and> drop (length s - length p) s = p)"

text \<open>\<open>strings.Join\<close>.\<close>

fun Join :: "string list \<Rightarrow> string \<Rightarrow> string" where
  "Join [] sep = []"
| "Join [x] sep = x"
| "Join (x # y # ys) sep = x @ sep @ Join (y # ys) sep"

text \<open>The \<open>%d\<close> verb of \<open>fmt.Sprintf\<close>.\<close>

definition digit_char :: "nat \<Rightarrow> char" where
  "digit_char n = char_of (48 + n)"

fun string_of_nat :: "nat \<Rightarrow> string" where
  "string_of_nat n =
     (if n < 10 then [digit_char n] else string_of_nat (n div 10) @ [digit_char (n mod 10)])"

declare string_of_nat.simps [simp del]

definition string_of_int :: "int \<Rightarrow> string" where
  "string_of_int i = (if i < 0 then CHR ''-'' # string_of_nat (nat (- i)) else string_of_nat (nat i))"

section \<open>Cypher transpiler: AST (pkg/cypher/ast) and single-hop SQL generation\<close>

record Node =
  node_Variable :: string
  node_Label :: string

record Edge =
  edge_Type :: string
  edge_Direction :: string
  edge_MinHops :: int
  edge_MaxHops :: int

record PathPattern =
  SourceNode :: Node
  PatternEdge :: Edge
  TargetNode :: Node

record AggregateFunction =
  agg_Function :: string
  agg_Variable :: string
  agg_Property :: string

record ReturnItem =
  ri_Variable :: string
  ri_Property :: string
  ri_Aggregate :: "AggregateFunction option"
  ri_Alias :: string

record GroupByItem =
  gb_Variable :: string
  gb_Property :: string

record OrderByItem =
  ob_Expression :: string
  ob_Ascending :: bool

text \<open>
  \<open>Query\<close>: the \<open>Match\<close> clause holds only the pattern and the \<open>Return\<close>, \<open>GroupBy\<close>,
  \<open>OrderBy\<close> clauses only their items, so each clause is modelled by its content; the
  optional clauses are nil-able pointers.
\<close>

record Query =
  q_Match :: PathPattern
  q_Return :: "ReturnItem list"
  q_GroupBy :: "GroupByItem list option"
  q_OrderBy :: "OrderByItem list option"
  q_Limit :: "int option"

record TranspileOptions =
  CWD :: string

text \<open>Bind parameters are \<open>[]interface{}\<close>; the generators append strings and ints.\<close>

datatype sql_arg = ArgStr string | ArgInt int

record TranspileResult =
  SQL :: string
  Args :: "sql_arg list"

datatype transpile_error =
    UndirectedEdge
  | UnknownAggregateVariable string
  | AggregateNotYetSupported string
  | UnknownAggregateFunction string
  | UnknownReturnVariable string
  | UnknownGroupByVariable string

text \<open>
  One iteration of the loop over \<open>q.Return.Items\<close>: \<open>Inr None\<close> is the \<open>continue\<close>
  of an item with an empty variable, \<open>Inr (Some e)\<close> appends \<open>e\<close> to \<open>selectItems\<close>.
  \<open>tableAlias[1:]\<close> is \<open>tl tableAlias\<close>.
\<close>

definition selectItem :: "string \<Rightarrow> string \<Rightarrow> ReturnItem \<Rightarrow> transpile_error + string option" where
  "selectItem e1Var e2Var item =
     (case ri_Aggregate item of
        Some agg \<Rightarrow>
          (if agg_Variable agg = e1Var \<or> agg_Variable agg = e2Var then
             (let tableAlias = (if agg_Variable agg = e1Var then ''e1'' else ''e2'') in
              if agg_Function agg = ''COUNT'' then
                (let aggExpr = ''COUNT(DISTINCT '' @ tableAlias @ ''.id)'' in
                 Inr (Some (if ri_Alias item \<noteq> [] then aggExpr @ '' AS '' @ ri_Alias item
                            else aggExpr)))
              else if agg_Function agg \<in> {''SUM'', ''AVG'', ''MIN'', ''MAX''} then
                Inl (AggregateNotYetSupported (agg_Function agg))
              else Inl (UnknownAggregateFunction (agg_Function agg)))
           else Inl (UnknownAggregateVariable (agg_Variable agg)))
      | None \<Rightarrow>
          (if ri_Variable item = e1Var \<or> ri_Variable item = e2Var then
             (let tableAlias = (if ri_Variable item = e1Var then ''e1'' else ''e2'');
                  n = tl tableAlias
              in Inr (Some
                (if ri_Property item \<noteq> [] then
                   (if ri_Property item = ''snippet'' then
                      ''c'' @ n @ ''.content_snippet AS '' @ ri_Variable item @ ''_snippet''
                    else if ri_Property item = ''file'' then
                      ''f'' @ n @ ''.path AS '' @ ri_Variable item @ ''_file''
                    else if ri_Property item = ''lines'' then
                      ''(c'' @ n @ ''.start_line || '' @ [CHR 0x27] @ ''-'' @ [CHR 0x27]
                        @ '' || c'' @ n @ ''.end_line) AS '' @ ri_Variable item @ ''_lines''
                    else tableAlias @ ''.'' @ ri_Property item @ '' AS '' @ ri_Variable item
                           @ ''_'' @ ri_Property item)
                 else tableAlias @ ''.*'')))
           else if ri_Variable item = [] then Inr None
           else Inl (UnknownReturnVariable (ri_Variable item))))"

fun selectItems :: "string \<Rightarrow> string \<Rightarrow> ReturnItem list \<Rightarrow> transpile_error + string list" where
  "selectItems e1Var e2Var [] = Inr []"
| "selectItems e1Var e2Var (item # items) =
     (case selectItem e1Var e2Var item of
        Inl e \<Rightarrow> Inl e
      | Inr r \<Rightarrow>
          (case selectItems e1Var e2Var items of
             Inl e \<Rightarrow> Inl e
           | Inr rest \<Rightarrow> Inr ((case r of None \<Rightarrow> [] | Some x \<Rightarrow> [x]) @ rest)))"

fun groupItems :: "string \<Rightarrow> string \<Rightarrow> GroupByItem list \<Rightarrow> transpile_error + string list" where
  "groupItems e1Var e2Var [] = Inr []"
| "groupItems e1Var e2Var (item # items) =
     (if gb_Variable item = e1Var \<or> gb_Variable item = e2Var then
        (case groupItems e1Var e2Var items of
           Inl e \<Rightarrow> Inl e
         | Inr rest \<Rightarrow>
             Inr (((if gb_Variable item = e1Var then ''e1'' else ''e2'') @ ''.'' @ gb_Property item)
                  # rest))
      else Inl (UnknownGroupByVariable (gb_Variable item)))"

definition orderItem :: "OrderByItem \<Rightarrow> string" where
  "orderItem item = ob_Expression item @ '' '' @ (if ob_Ascending item then ''ASC'' else ''DESC'')"

definition fromClause :: string where
  "fromClause =
     nl # ''FROM entities e1'' @
     nl # ''JOIN graph_edges g ON g.source_entity_id = e1.id'' @
     nl # ''JOIN entities e2 ON g.target_entity_id = e2.id'' @
     nl # ''LEFT JOIN vec_chunks c1 ON e1.chunk_id = c1.chunk_id'' @
     nl # ''LEFT JOIN files f1 ON c1.file_id = f1.id'' @
     nl # ''LEFT JOIN vec_chunks c2 ON e2.chunk_id = c2.chunk_id'' @
     nl # ''LEFT JOIN files f2 ON c2.file_id = f2.id''"

text \<open>
  The WHERE conditions with their arguments, in the order the code appends them: the
  label of \<open>e1\<close>, the edge type, the label of \<open>e2\<close>. The options are not consulted.
\<close>

definition whereConditions :: "string \<Rightarrow> string \<Rightarrow> string \<Rightarrow> (string \<times> sql_arg) list" where
  "whereConditions e1Label edgeType e2Label =
     (if e1Label \<noteq> [] then [(''e1.entity_type = ?'', ArgStr e1Label)] else []) @
     (if edgeType \<noteq> [] then [(''g.relation_type = ?'', ArgStr edgeType)] else []) @
     (if e2Label \<noteq> [] then [(''e2.entity_type = ?'', ArgStr e2Label)] else [])"

definition generateSingleHopSQL :: "Query \<Rightarrow> TranspileOptions \<Rightarrow> transpile_error + TranspileResult" where
  "generateSingleHopSQL q opts =
     (let pattern = q_Match q;
          sourceNode = SourceNode pattern;
          edge = PatternEdge pattern;
          targetNode = TargetNode pattern
      in
      if edge_Direction edge \<noteq> ''->'' \<and> edge_Direction edge \<noteq> ''<-'' then Inl UndirectedEdge
      else
        (let fwd = (edge_Direction edge = ''->'');
             e1Var = (if fwd then node_Variable sourceNode else node_Variable targetNode);
             e1Label = (if fwd then node_Label sourceNode else node_Label targetNode);
             e2Var = (if fwd then node_Variable targetNode else node_Variable sourceNode);
             e2Label = (if fwd then node_Label targetNode else node_Label sourceNode)
         in
         case selectItems e1Var e2Var (q_Return q) of
           Inl e \<Rightarrow> Inl e
         | Inr sel \<Rightarrow>
             (let conds = whereConditions e1Label (edge_Type edge) e2Label;
                  sql1 = ''SELECT '' @ Join sel '', '' @ fromClause @
                         (if conds \<noteq> [] then
                            nl # ''WHERE '' @ Join (map fst conds) (nl # ''  AND '')
                          else []);
                  args = map snd conds
              in
              case (case q_GroupBy q of
                      None \<Rightarrow> Inr []
                    | Some items \<Rightarrow>
                        (case groupItems e1Var e2Var items of
                           Inl e \<Rightarrow> Inl e
                         | Inr gs \<Rightarrow> Inr (nl # ''GROUP BY '' @ Join gs '', ''))) of
                Inl e \<Rightarrow> Inl e
              | Inr grp \<Rightarrow>
                  Inr \<lparr> SQL = sql1 @ grp @
                          (case q_OrderBy q of
                             None \<Rightarrow> []
                           | Some items \<Rightarrow> nl # ''ORDER BY '' @ Join (map orderItem items) '', '') @
                          (case q_Limit q of
                             None \<Rightarrow> []
                           | Some c \<Rightarrow> nl # ''LIMIT '' @ string_of_int c),
                        Args = args \<rparr>)))"

text \<open>
  The query of \<open>TestTranspileWithCWD\<close>,
  \<open>MATCH (f:FUNCTION)-[:calls]->(t) RETURN f.name, t.name\<close>, as the AST constructors
  build it (\<open>NewNodeLabeled\<close>, \<open>NewEdgeForward\<close>, \<open>NewNodeVar\<close>, \<open>NewReturnProp\<close>,
  \<open>NewQuery\<close>), and the expected SQL and arguments of that test.
\<close>

definition cwd_test_query :: Query where
  "cwd_test_query =
     \<lparr> q_Match = \<lparr> SourceNode = \<lparr> node_Variable = ''f'', node_Label = ''FUNCTION'' \<rparr>,
                   PatternEdge = \<lparr> edge_Type = ''calls'', edge_Direction = ''->'',
                                   edge_MinHops = 0, edge_MaxHops = 0 \<rparr>,
                   TargetNode = \<lparr> node_Variable = ''t'', node_Label = [] \<rparr> \<rparr>,
       q_Return = [ \<lparr> ri_Variable = ''f'', ri_Property = ''name'', ri_Aggregate = None, ri_Alias = [] \<rparr>,
                    \<lparr> ri_Variable = ''t'', ri_Property = ''name'', ri_Aggregate = None, ri_Alias = [] \<rparr> ],
       q_GroupBy = None, q_OrderBy = None, q_Limit = None \<rparr>"

definition cwd_test_opts :: TranspileOptions where
  "cwd_test_opts = \<lparr> CWD = ''/home/user/project/pkg/db'' \<rparr>"

definition cwd_test_wantArgs :: "sql_arg list" where
  "cwd_test_wantArgs =
     [ArgStr ''/home/user/project/pkg/db/%'', ArgStr ''/home/user/project/pkg/db/%'',
      ArgStr ''FUNCTION'', ArgStr ''calls'']"

definition cwd_test_wantSQL :: string where
  "cwd_test_wantSQL =
     ''SELECT e1.name AS f_name, e2.name AS t_name'' @ fromClause @
     nl # ''WHERE (f1.path LIKE ? OR f2.path LIKE ?)'' @
     nl # ''  AND e1.entity_type = ?'' @
     nl # ''  AND g.relation_type = ?''"

section \<open>Chunking (pkg/indexer: chunkContent, countLines)\<close>

text \<open>
  The sizes of the indexer configuration are Go \<open>int\<close>s; the model takes them
  non-negative (\<open>nat\<close>). With naturals \<open>ChunkSize - ChunkOverlap\<close> is 0 exactly when
  the Go difference is \<open>\<le> 0\<close>, which is the case the code replaces by \<open>ChunkSize\<close>.
\<close>

record Config =
  ChunkSize :: nat
  ChunkOverlap :: nat
  BatchSize :: nat
  GraphBatchSize :: int
  MinChunkSize :: nat
  MaxChunkSize :: nat

definition DefaultConfig :: Config where
  "DefaultConfig = \<lparr> ChunkSize = 512, ChunkOverlap = 64, BatchSize = 20, GraphBatchSize = 100,
                      MinChunkSize = 10, MaxChunkSize = 4096 \<rparr>"

record Chunk =
  FileID :: int
  FilePath :: string
  Content :: string
  StartOffset :: nat
  EndOffset :: nat
  StartLine :: nat
  EndLine :: nat

definition countLines :: "string \<Rightarrow> nat" where
  "countLines data = length (filter (\<lambda>b. b = nl) data)"

text \<open>\<open>for offset < contentLen && contentBytes[offset] != '\n' { offset++ }\<close>\<close>

function scanForward :: "string \<Rightarrow> nat \<Rightarrow> nat" where
  "scanForward cb offset =
     (if offset < length cb \<and> cb ! offset \<noteq> nl then scanForward cb (Suc offset) else offset)"
  by pat_completeness auto
termination
  by (relation "measure (\<lambda>(cb, offset). length cb - offset)") auto

declare scanForward.simps [simp del]

text \<open>\<open>for end > offset && contentBytes[end-1] != '\n' { end-- }\<close>\<close>

function scanBackward :: "string \<Rightarrow> nat \<Rightarrow> nat \<Rightarrow> nat" where
  "scanBackward cb offset end =
     (if end > offset \<and> cb ! (end - 1) \<noteq> nl then scanBackward cb offset (end - 1) else end)"
  by pat_completeness auto
termination
  by (relation "measure (\<lambda>(cb, offset, end). end)") auto

declare scanBackward.simps [simp del]

definition alignStart :: "string \<Rightarrow> nat \<Rightarrow> nat" where
  "alignStart cb offset =
     (if offset > 0 then
        (let offset' = scanForward cb offset in
         if offset' < length cb then offset' + 1 else offset')
      else offset)"

definition alignEnd :: "string \<Rightarrow> nat \<Rightarrow> nat \<Rightarrow> nat" where
  "alignEnd cb offset end = (if end < length cb then scanBackward cb offset end else end)"

definition windowEnd :: "Config \<Rightarrow> nat \<Rightarrow> nat \<Rightarrow> nat" where
  "windowEnd cfg contentLen offset =
     (let end = min (offset + ChunkSize cfg) contentLen in
      if end - offset > MaxChunkSize cfg then offset + MaxChunkSize cfg else end)"

definition mkChunk :: "string \<Rightarrow> int \<Rightarrow> string \<Rightarrow> nat \<Rightarrow> nat \<Rightarrow> Chunk" where
  "mkChunk cb fileID filePath offset end =
     \<lparr> FileID = fileID, FilePath = filePath,
       Content = take (end - offset) (drop offset cb),
       StartOffset = offset, EndOffset = end,
       StartLine = countLines (take offset cb) + 1,
       EndLine = countLines (take end cb) \<rparr>"

lemma scanForward_ge: "offset \<le> scanForward cb offset"
proof (induction cb offset rule: scanForward.induct)
  case (1 cb offset)
  then show ?case
    by (subst scanForward.simps) (auto simp: Suc_leD)
qed

lemma alignStart_ge: "offset \<le> alignStart cb offset"
  using scanForward_ge [of offset cb]
  by (auto simp: alignStart_def Let_def)

text \<open>
  The sliding-window loop. \<open>None\<close> is a loop that never ends: with \<open>stride = 0\<close> (a
  \<open>ChunkSize\<close> of 0) the skip branch adds \<open>min(stride, 100) = 0\<close> to \<open>offset\<close> for ever.
  With a positive stride \<open>offset\<close> grows in every iteration.
\<close>

function chunkLoop :: "Config \<Rightarrow> string \<Rightarrow> int \<Rightarrow> string \<Rightarrow> nat \<Rightarrow> nat \<Rightarrow> Chunk list \<Rightarrow> Chunk list option" where
  "chunkLoop cfg cb fileID filePath stride offset chunks =
     (if stride = 0 then None
      else if \<not> offset < length cb then Some chunks
      else if alignEnd cb (alignStart cb offset) (windowEnd cfg (length cb) offset)
                \<le> alignStart cb offset
           then chunkLoop cfg cb fileID filePath stride (alignStart cb offset + min stride 100) chunks
      else if alignEnd cb (alignStart cb offset) (windowEnd cfg (length cb) offset) \<ge> length cb
           then Some (if alignEnd cb (alignStart cb offset) (windowEnd cfg (length cb) offset)
                           - alignStart cb offset \<ge> MinChunkSize cfg
                      then chunks @ [mkChunk cb fileID filePath (alignStart cb offset)
                              (alignEnd cb (alignStart cb offset) (windowEnd cfg (length cb) offset))]
                      else chunks)
      else chunkLoop cfg cb fileID filePath stride (alignStart cb offset + stride)
             (if alignEnd cb (alignStart cb offset) (windowEnd cfg (length cb) offset)
                   - alignStart cb offset \<ge> MinChunkSize cfg
              then chunks @ [mkChunk cb fileID filePath (alignStart cb offset)
                      (alignEnd cb (alignStart cb offset) (windowEnd cfg (length cb) offset))]
              else chunks))"
  by pat_completeness auto
termination
proof (relation "measure (\<lambda>(cfg, cb, fileID, filePath, stride, offset, chunks). length cb - offset)")
  fix cfg :: Config and cb :: string and fileID :: int and filePath :: string
    and stride offset :: nat and chunks :: "Chunk list"
  assume "stride \<noteq> 0" "\<not> \<not> offset < length cb"
  then show "((cfg, cb, fileID, filePath, stride, alignStart cb offset + min stride 100, chunks),
              (cfg, cb, fileID, filePath, stride, offset, chunks))
             \<in> measure (\<lambda>(cfg, cb, fileID, filePath, stride, offset, chunks). length cb - offset)"
    using alignStart_ge [of offset cb] by auto
next
  fix cfg :: Config and cb :: string and fileID :: int and filePath :: string
    and stride offset :: nat and chunks :: "Chunk list"
  assume "stride \<noteq> 0" "\<not> \<not> offset < length cb"
  then show "((cfg, cb, fileID, filePath, stride, alignStart cb offset + stride,
               if MinChunkSize cfg \<le> alignEnd cb (alignStart cb offset) (windowEnd cfg (length cb) offset)
                     - alignStart cb offset
               then chunks @ [mkChunk cb fileID filePath (alignStart cb offset)
                       (alignEnd cb (alignStart cb offset) (windowEnd cfg (length cb) offset))]
               else chunks),
              (cfg, cb, fileID, filePath, stride, offset, chunks))
             \<in> measure (\<lambda>(cfg, cb, fileID, filePath, stride, offset, chunks). length cb - offset)"
    using alignStart_ge [of offset cb] by auto
qed simp

declare chunkLoop.simps [simp del]

definition chunkContent :: "Config \<Rightarrow> string \<Rightarrow> int \<Rightarrow> string \<Rightarrow> Chunk list option" where
  "chunkContent cfg content fileID filePath =
     (let contentLen = length content in
      if contentLen < MinChunkSize cfg then Some []
      else if contentLen \<le> ChunkSize cfg then
        Some [\<lparr> FileID = fileID, FilePath = filePath, Content = content,
                StartOffset = 0, EndOffset = contentLen,
                StartLine = 1, EndLine = countLines content \<rparr>]
      else
        (let stride = (if ChunkSize cfg - ChunkOverlap cfg = 0 then ChunkSize cfg
                       else ChunkSize cfg - ChunkOverlap cfg)
         in chunkLoop cfg content fileID filePath stride 0 []))"

text \<open>
  The configuration of the repository's \<open>TestChunkContent\<close>, and a text of two lines
  whose last line has no newline.
\<close>

definition test_chunk_cfg :: Config where
  "test_chunk_cfg = \<lparr> ChunkSize = 20, ChunkOverlap = 5, BatchSize = 20, GraphBatchSize = 100,
                       MinChunkSize = 5, MaxChunkSize = 100 \<rparr>"

definition two_lines :: string where
  "two_lines = ''aaaaaaaaaaaaaaa'' @ [nl] @ ''bbbbbbbbbbbb''"

text \<open>
  What the chunks of a content do satisfy: the chunk is the slice between its offsets,
  has at least the minimum length, and its line fields are the newline counts at the
  offsets, so that \<open>EndLine\<close> is at least \<open>StartLine - 1\<close>.
\<close>

definition chunkInvariant :: "Config \<Rightarrow> string \<Rightarrow> Chunk \<Rightarrow> bool" where
  "chunkInvariant cfg content c \<longleftrightarrow>
     StartOffset c \<le> EndOffset c \<and> EndOffset c \<le> length content \<and>
     Content c = take (EndOffset c - StartOffset c) (drop (StartOffset c) content) \<and>
     MinChunkSize cfg \<le> length (Content c) \<and>
     StartLine c = countLines (take (StartOffset c) content) + 1 \<and>
     EndLine c = countLines (take (EndOffset c) content) \<and>
     StartLine c \<le> EndLine c + 1"

section \<open>The store: file registry and work queue (pkg/db/files.go)\<close>

text \<open>
  Timestamps are clock readings (\<open>nat\<close>); a function that calls \<open>time.Now()\<close> takes the
  reading as its argument \<open>now\<close>. Statements are modelled on a store that executes them:
  failures of the storage engine itself (I/O errors of \<open>database/sql\<close>) are outside the
  model, errors that the code or the schema produce are values.
\<close>

datatype status = Pending | Processing | Indexed | Failed

type_synonym float32 = real

record File =
  file_ID :: int
  file_Path :: string
  file_LastModTime :: int
  file_ContentHash :: string
  file_IndexedAt :: nat
  file_Status :: status
  file_ErrorMessage :: "string option"
  file_RetryCount :: int
  file_QueuedAt :: "nat option"

record ChunkRow =
  chunk_ChunkID :: int
  chunk_FileID :: int
  chunk_ContentSnippet :: string
  chunk_Embedding :: "float32 list"
  chunk_StartLine :: nat
  chunk_EndLine :: nat

record Entity =
  entity_ID :: int
  entity_Name :: string
  entity_EntityType :: string
  entity_ChunkID :: int

record EntityEdge =
  ee_SourceEntityID :: int
  ee_TargetEntityID :: int
  ee_RelationType :: string
  ee_ChunkID :: int
  ee_Weight :: real

record GraphState =
  gs_chunk_id :: int
  gs_graph_extracted :: bool
  gs_extracted_at :: nat

text \<open>
  The tables. \<open>files.id\<close> and \<open>entities.id\<close> are \<open>AUTOINCREMENT\<close> keys and
  \<open>vec_chunks.chunk_id\<close> is the row id the vector table assigns: each is drawn from a
  counter that only grows, so an identifier is never reused.
\<close>

record DB =
  embeddingDim :: nat
  files :: "File list"
  nextFileID :: int
  vec_chunks :: "ChunkRow list"
  nextChunkID :: int
  entities :: "Entity list"
  nextEntityID :: int
  graph_edges :: "EntityEdge list"
  chunk_graph_state :: "GraphState list"

definition emptyDB :: "nat \<Rightarrow> DB" where
  "emptyDB n = \<lparr> embeddingDim = n, files = [], nextFileID = 1, vec_chunks = [], nextChunkID = 1,
                    entities = [], nextEntityID = 1, graph_edges = [], chunk_graph_state = [] \<rparr>"

definition GetFile :: "DB \<Rightarrow> string \<Rightarrow> File option" where
  "GetFile db path = find (\<lambda>f. file_Path f = path) (files db)"

definition GetFileByID :: "DB \<Rightarrow> int \<Rightarrow> File option" where
  "GetFileByID db i = find (\<lambda>f. file_ID f = i) (files db)"

text \<open>
  \<open>INSERT INTO files (path, last_mod_time, content_hash, indexed_at) ... ON CONFLICT(path)
  DO UPDATE SET last_mod_time, content_hash, indexed_at\<close>, then \<open>SELECT id\<close>. A new row
  takes the column defaults: status \<open>indexed\<close>, no error, retry count 0, no queue time.
\<close>

definition UpsertFile :: "DB \<Rightarrow> string \<Rightarrow> int \<Rightarrow> string \<Rightarrow> nat \<Rightarrow> DB \<times> int" where
  "UpsertFile db path modTime contentHash now =
     (case GetFile db path of
        Some f \<Rightarrow>
          (db\<lparr> files := map (\<lambda>r. if file_Path r = path
                                 then r\<lparr> file_LastModTime := modTime, file_ContentHash := contentHash,
                                         file_IndexedAt := now \<rparr>
                                 else r) (files db) \<rparr>,
           file_ID f)
      | None \<Rightarrow>
          (db\<lparr> files := files db @
                  [\<lparr> file_ID = nextFileID db, file_Path = path, file_LastModTime = modTime,
                     file_ContentHash = contentHash, file_IndexedAt = now, file_Status = Indexed,
                     file_ErrorMessage = None, file_RetryCount = 0, file_QueuedAt = None \<rparr>],
                nextFileID := nextFileID db + 1 \<rparr>,
           nextFileID db))"

definition HasFileChanged :: "DB \<Rightarrow> string \<Rightarrow> int \<Rightarrow> string \<Rightarrow> bool" where
  "HasFileChanged db path modTime contentHash =
     (case GetFile db path of
        None \<Rightarrow> True
      | Some file \<Rightarrow> file_LastModTime file \<noteq> modTime \<or> file_ContentHash file \<noteq> contentHash)"

text \<open>
  \<open>INSERT INTO files (path, last_mod_time, content_hash, status, queued_at, retry_count)
  VALUES (?, ?, ?, 'pending', ?, 0) ON CONFLICT(path) DO UPDATE SET ... status = 'pending',
  queued_at = excluded.queued_at, retry_count = 0, error_message = NULL\<close>.
  A new row takes \<open>indexed_at\<close> from its default \<open>CURRENT_TIMESTAMP\<close>.
\<close>

definition MarkFilePending :: "DB \<Rightarrow> string \<Rightarrow> int \<Rightarrow> string \<Rightarrow> nat \<Rightarrow> DB" where
  "MarkFilePending db path modTime contentHash now =
     (case GetFile db path of
        Some f \<Rightarrow>
          db\<lparr> files := map (\<lambda>r. if file_Path r = path
                                then r\<lparr> file_LastModTime := modTime, file_ContentHash := contentHash,
                                        file_Status := Pending, file_QueuedAt := Some now,
                                        file_RetryCount := 0, file_ErrorMessage := None \<rparr>
                                else r) (files db) \<rparr>
      | None \<Rightarrow>
          db\<lparr> files := files db @
                 [\<lparr> file_ID = nextFileID db, file_Path = path, file_LastModTime = modTime,
                    file_ContentHash = contentHash, file_IndexedAt = now, file_Status = Pending,
                    file_ErrorMessage = None, file_RetryCount = 0, file_QueuedAt = Some now \<rparr>],
               nextFileID := nextFileID db + 1 \<rparr>)"

text \<open>
  \<open>SELECT ... WHERE status = 'pending' ORDER BY queued_at ASC LIMIT ?\<close>. SQLite sorts
  NULL first and reads a negative LIMIT as no limit. \<open>rows.Scan\<close> reads \<open>queued_at\<close> into a
  Go \<open>string\<close>, which fails on NULL.
\<close>

datatype db_error =
    ScanError | DimensionMismatch nat nat | FileNotFound string
  | SerializeFailed | QueryFailed | RowsIterationFailed

definition queuedKey :: "File \<Rightarrow> nat" where
  "queuedKey f = (case file_QueuedAt f of None \<Rightarrow> 0 | Some t \<Rightarrow> Suc t)"

definition sqlLimit :: "int \<Rightarrow> 'a list \<Rightarrow> 'a list" where
  "sqlLimit limit rows = (if limit < 0 then rows else take (nat limit) rows)"

definition GetPendingFiles :: "DB \<Rightarrow> int \<Rightarrow> db_error + File list" where
  "GetPendingFiles db limit =
     (let rows = sqlLimit limit (sort_key queuedKey (filter (\<lambda>f. file_Status f = Pending) (files db)))
      in if \<exists>f \<in> set rows. file_QueuedAt f = None then Inl ScanError else Inr rows)"

definition updateFile :: "DB \<Rightarrow> int \<Rightarrow> (File \<Rightarrow> File) \<Rightarrow> DB" where
  "updateFile db fileID upd = db\<lparr> files := map (\<lambda>r. if file_ID r = fileID then upd r else r) (files db) \<rparr>"

definition MarkFileProcessing :: "DB \<Rightarrow> int \<Rightarrow> DB" where
  "MarkFileProcessing db fileID = updateFile db fileID (\<lambda>r. r\<lparr> file_Status := Processing \<rparr>)"

definition MarkFileIndexed :: "DB \<Rightarrow> int \<Rightarrow> nat \<Rightarrow> DB" where
  "MarkFileIndexed db fileID now =
     updateFile db fileID (\<lambda>r. r\<lparr> file_Status := Indexed, file_IndexedAt := now,
                                   file_ErrorMessage := None, file_RetryCount := 0 \<rparr>)"

definition MarkFileFailed :: "DB \<Rightarrow> int \<Rightarrow> string \<Rightarrow> int \<Rightarrow> DB" where
  "MarkFileFailed db fileID errorMsg retryCount =
     updateFile db fileID (\<lambda>r. r\<lparr> file_Status := Failed, file_ErrorMessage := Some errorMsg,
                                   file_RetryCount := retryCount \<rparr>)"

section \<open>The store: chunks and nearest-neighbour search (pkg/db chunks)\<close>

definition InsertChunk :: "DB \<Rightarrow> int \<Rightarrow> string \<Rightarrow> float32 list \<Rightarrow> nat \<Rightarrow> nat \<Rightarrow> db_error + DB \<times> int" where
  "InsertChunk db fileID contentSnippet embedding startLine endLine =
     (if length embedding \<noteq> embeddingDim db
      then Inl (DimensionMismatch (embeddingDim db) (length embedding))
      else Inr (db\<lparr> vec_chunks := vec_chunks db @
                       [\<lparr> chunk_ChunkID = nextChunkID db, chunk_FileID = fileID,
                          chunk_ContentSnippet = contentSnippet, chunk_Embedding = embedding,
                          chunk_StartLine = startLine, chunk_EndLine = endLine \<rparr>],
                     nextChunkID := nextChunkID db + 1 \<rparr>,
                nextChunkID db))"

text \<open>\<open>GetChunk\<close> returns the row without its embedding (\<open>c.Embedding = nil\<close>), or nil.\<close>

definition GetChunk :: "DB \<Rightarrow> int \<Rightarrow> ChunkRow option" where
  "GetChunk db chunkID =
     map_option (\<lambda>c. c\<lparr> chunk_Embedding := [] \<rparr>)
       (find (\<lambda>c. chunk_ChunkID c = chunkID) (vec_chunks db))"

definition DeleteChunksForFile :: "DB \<Rightarrow> int \<Rightarrow> DB" where
  "DeleteChunksForFile db fileID =
     db\<lparr> vec_chunks := filter (\<lambda>c. chunk_FileID c \<noteq> fileID) (vec_chunks db) \<rparr>"

record ChunkWithPath =
  cwp_ChunkID :: int
  cwp_FileID :: int
  cwp_FilePath :: string
  cwp_ContentSnippet :: string
  cwp_StartLine :: nat
  cwp_EndLine :: nat

text \<open>
  \<open>FROM vec_chunks v JOIN files f ON v.file_id = f.id\<close>: \<open>files.id\<close> is the primary
  key, so a chunk row joins with the one file row of that id, or with none.
\<close>

definition chunksJoinFiles :: "DB \<Rightarrow> (ChunkRow \<times> File) list" where
  "chunksJoinFiles db =
     List.map_filter (\<lambda>v. map_option (\<lambda>f. (v, f)) (GetFileByID db (chunk_FileID v))) (vec_chunks db)"

definition toChunkWithPath :: "ChunkRow \<times> File \<Rightarrow> ChunkWithPath" where
  "toChunkWithPath vf =
     \<lparr> cwp_ChunkID = chunk_ChunkID (fst vf), cwp_FileID = chunk_FileID (fst vf),
       cwp_FilePath = file_Path (snd vf), cwp_ContentSnippet = chunk_ContentSnippet (fst vf),
       cwp_StartLine = chunk_StartLine (fst vf), cwp_EndLine = chunk_EndLine (fst vf) \<rparr>"

text \<open>
  \<open>SELECT ... FROM vec_chunks v JOIN files f ON v.file_id = f.id
  WHERE v.chunk_id IN (?, ..., ?) ORDER BY v.chunk_id\<close>; an empty id list returns nil
  without a query.
\<close>

definition GetChunksByIDs :: "DB \<Rightarrow> int list \<Rightarrow> ChunkWithPath list" where
  "GetChunksByIDs db chunkIDs =
     (if chunkIDs = [] then []
      else map toChunkWithPath
             (sort_key (\<lambda>vf. chunk_ChunkID (fst vf))
                (filter (\<lambda>vf. chunk_ChunkID (fst vf) \<in> set chunkIDs) (chunksJoinFiles db))))"

text \<open>
  What the SQL engine and the vector extension do is a parameter of the model:
  \<^item> the cosine distance of two vectors, \<open>None\<close> when the engine yields NULL (the
    distance is undefined, as for a vector of zeros);
  \<^item> the \<open>LIKE\<close> operator (pattern first);
  \<^item> whether \<open>SerializeFloat32\<close> fails on a vector, whether the statement fails to
    execute, and whether the iteration over its rows ends in an error.
\<close>

record Engine =
  vec_distance_cosine :: "float32 list \<Rightarrow> float32 list \<Rightarrow> real option"
  sql_like :: "string \<Rightarrow> string \<Rightarrow> bool"
  serialize_fails :: "float32 list \<Rightarrow> bool"
  query_fails :: bool
  rows_fail :: bool

record RelatedChunk =
  rc_Chunk :: "ChunkRow option"
  rc_RelationType :: string
  rc_Weight :: real
  rc_Depth :: int

record SearchResult =
  sr_Chunk :: ChunkRow
  sr_Distance :: real
  sr_RelatedChunks :: "RelatedChunk list"

text \<open>
  The query of \<open>SearchSimilar\<close>:
  \<open>SELECT ..., distance, f.path FROM vec_chunks c JOIN files f ON c.file_id = f.id
  WHERE embedding MATCH ? AND k = ? [AND f.path LIKE ?] ORDER BY distance\<close>.
  The vector table answers \<open>embedding MATCH ? AND k = ?\<close> with the \<open>k\<close> rows nearest to
  the query vector, each with its distance; the join and the path filter apply to those.
  NULL sorts first, as in SQLite's \<open>ORDER BY\<close>. The vector table refuses a \<open>k\<close> above 4096.
\<close>

definition knnRows :: "Engine \<Rightarrow> DB \<Rightarrow> float32 list \<Rightarrow> nat \<Rightarrow> (ChunkRow \<times> real option) list" where
  "knnRows eng db q k =
     take k (sort_key snd (map (\<lambda>c. (c, vec_distance_cosine eng q (chunk_Embedding c))) (vec_chunks db)))"

definition queryRows :: "Engine \<Rightarrow> DB \<Rightarrow> float32 list \<Rightarrow> nat \<Rightarrow> string \<Rightarrow> (ChunkRow \<times> real option) list" where
  "queryRows eng db q k pathFilter =
     sort_key snd
       (filter (\<lambda>cd. case GetFileByID db (chunk_FileID (fst cd)) of
                       None \<Rightarrow> False
                     | Some f \<Rightarrow> pathFilter \<noteq> [] \<longrightarrow> sql_like eng pathFilter (file_Path f))
               (knnRows eng db q k))"

text \<open>\<open>db.conn.Query\<close>: the error of a statement that does not execute, or the rows.\<close>

definition searchQuery :: "Engine \<Rightarrow> DB \<Rightarrow> float32 list \<Rightarrow> nat \<Rightarrow> string \<Rightarrow> db_error + (ChunkRow \<times> real option) list" where
  "searchQuery eng db q k pathFilter =
     (if query_fails eng \<or> 4096 < k then Inl QueryFailed
      else Inr (queryRows eng db q k pathFilter))"

text \<open>
  The loop \<open>for rows.Next()\<close>: \<open>rows.Scan\<close> reads the distance into a \<open>float64\<close>, which
  fails on NULL; a scanned row becomes a result without its embedding and without
  related chunks.
\<close>

fun scanRows :: "(ChunkRow \<times> real option) list \<Rightarrow> db_error + SearchResult list" where
  "scanRows [] = Inr []"
| "scanRows ((c, None) # rows) = Inl ScanError"
| "scanRows ((c, Some distance) # rows) =
     (case scanRows rows of
        Inl err \<Rightarrow> Inl err
      | Inr results \<Rightarrow>
          Inr (\<lparr> sr_Chunk = c\<lparr> chunk_Embedding := [] \<rparr>, sr_Distance = distance,
                 sr_RelatedChunks = [] \<rparr> # results))"

definition SearchSimilar :: "Engine \<Rightarrow> DB \<Rightarrow> float32 list \<Rightarrow> int \<Rightarrow> string \<Rightarrow> db_error + SearchResult list" where
  "SearchSimilar eng db queryEmbedding limit pathFilter =
     (if length queryEmbedding \<noteq> embeddingDim db
      then Inl (DimensionMismatch (embeddingDim db) (length queryEmbedding))
      else
        (let limit' = (if limit \<le> 0 then 10 else limit) in
         if serialize_fails eng queryEmbedding then Inl SerializeFailed
         else
           (case searchQuery eng db queryEmbedding (nat limit') pathFilter of
              Inl err \<Rightarrow> Inl err
            | Inr rows \<Rightarrow>
                (case scanRows rows of
                   Inl err \<Rightarrow> Inl err
                 | Inr results \<Rightarrow> if rows_fail eng then Inl RowsIterationFailed else Inr results))))"

subsection \<open>Legacy chunk neighbours and the expanded search\<close>

record GetNeighborsOptions =
  gno_ChunkID :: int
  gno_MaxDepth :: int
  gno_MinWeight :: real
  gno_Limit :: int

record Neighbor =
  nb_ChunkID :: int
  nb_Depth :: int
  nb_TotalWeight :: real
  nb_RelationType :: string

datatype search_error = DBError db_error | NilDereference

definition GetNeighbors :: "DB \<Rightarrow> GetNeighborsOptions \<Rightarrow> db_error + Neighbor list" where
  "GetNeighbors db opts = Inr []"

definition TrimSuffix :: "string \<Rightarrow> string \<Rightarrow> string" where
  "TrimSuffix s suf = (if HasSuffix s suf then take (length s - length suf) s else s)"

text \<open>
  The loop over the neighbours of one result. \<open>GetChunk\<close> returns nil for an unknown id;
  with a path filter the code then reads \<open>chunk.FileID\<close> of nil, a panic.
\<close>

fun relatedChunks :: "DB \<Rightarrow> string \<Rightarrow> Neighbor list \<Rightarrow> search_error + RelatedChunk list" where
  "relatedChunks db pathFilter [] = Inr []"
| "relatedChunks db pathFilter (n # ns) =
     (let chunk = GetChunk db (nb_ChunkID n);
          related = \<lparr> rc_Chunk = chunk, rc_RelationType = nb_RelationType n,
                      rc_Weight = nb_TotalWeight n, rc_Depth = nb_Depth n \<rparr>
      in
      if pathFilter \<noteq> [] \<and> chunk = None then Inl NilDereference
      else
        (case relatedChunks db pathFilter ns of
           Inl e \<Rightarrow> Inl e
         | Inr rest \<Rightarrow>
             (if pathFilter \<noteq> [] then
                (case GetFileByID db (chunk_FileID (the chunk)) of
                   None \<Rightarrow> Inr rest
                 | Some file \<Rightarrow>
                     (if \<not> HasPrefix (file_Path file) (TrimSuffix pathFilter ''%'') then Inr rest
                      else Inr (related # rest)))
              else Inr (related # rest))))"

fun expandResults :: "DB \<Rightarrow> int \<Rightarrow> string \<Rightarrow> SearchResult list \<Rightarrow> search_error + SearchResult list" where
  "expandResults db maxDepth pathFilter [] = Inr []"
| "expandResults db maxDepth pathFilter (result # results) =
     (case (case GetNeighbors db \<lparr> gno_ChunkID = chunk_ChunkID (sr_Chunk result), gno_MaxDepth = maxDepth,
                                    gno_MinWeight = 0, gno_Limit = 5 \<rparr> of
              Inl e \<Rightarrow> Inr result
            | Inr neighbors \<Rightarrow>
                (case relatedChunks db pathFilter neighbors of
                   Inl e \<Rightarrow> Inl e
                 | Inr rel \<Rightarrow> Inr (result\<lparr> sr_RelatedChunks := sr_RelatedChunks result @ rel \<rparr>))) of
        Inl e \<Rightarrow> Inl e
      | Inr result' \<Rightarrow>
          (case expandResults db maxDepth pathFilter results of
             Inl e \<Rightarrow> Inl e
           | Inr rest \<Rightarrow> Inr (result' # rest)))"

definition SearchWithRelations :: "Engine \<Rightarrow> DB \<Rightarrow> float32 list \<Rightarrow> int \<Rightarrow> int \<Rightarrow> string \<Rightarrow> search_error + SearchResult list" where
  "SearchWithRelations eng db queryEmbedding limit maxDepth pathFilter =
     (case SearchSimilar eng db queryEmbedding limit pathFilter of
        Inl e \<Rightarrow> Inl (DBError e)
      | Inr results \<Rightarrow> expandResults db maxDepth pathFilter results)"

subsection \<open>A small store and engine for evaluation\<close>

text \<open>
  One file with two chunks, and an engine that does not fail, whose distance is NULL
  when one of the vectors is zero, 0 between equal vectors and 1 otherwise, and whose
  \<open>LIKE\<close> matches a prefix pattern \<open>p%\<close>.
\<close>

definition sample_db :: DB where
  "sample_db = (emptyDB 2)\<lparr>
     files := [\<lparr> file_ID = 1, file_Path = ''/p/a.go'', file_LastModTime = 0, file_ContentHash = ''h'',
                file_IndexedAt = 0, file_Status = Indexed, file_ErrorMessage = None,
                file_RetryCount = 0, file_QueuedAt = None \<rparr>],
     nextFileID := 2,
     vec_chunks := [\<lparr> chunk_ChunkID = 1, chunk_FileID = 1, chunk_ContentSnippet = ''first'',
                      chunk_Embedding = [1, 0], chunk_StartLine = 1, chunk_EndLine = 1 \<rparr>,
                    \<lparr> chunk_ChunkID = 2, chunk_FileID = 1, chunk_ContentSnippet = ''second'',
                      chunk_Embedding = [0, 1], chunk_StartLine = 2, chunk_EndLine = 2 \<rparr>],
     nextChunkID := 3 \<rparr>"

definition sample_engine :: Engine where
  "sample_engine =
     \<lparr> vec_distance_cosine =
         (\<lambda>a b. if list_all (\<lambda>x. x = 0) a \<or> list_all (\<lambda>x. x = 0) b then None
                else Some (if a = b then 0 else 1)),
       sql_like = (\<lambda>p s. HasPrefix s (TrimSuffix p ''%'')),
       serialize_fails = (\<lambda>v. False), query_fails = False, rows_fail = False \<rparr>"

text \<open>The two chunks as search results for the query vector \<open>[1, 0]\<close>, nearest first.\<close>

definition sample_results :: "SearchResult list" where
  "sample_results =
     [\<lparr> sr_Chunk = \<lparr> chunk_ChunkID = 1, chunk_FileID = 1, chunk_ContentSnippet = ''first'',
                      chunk_Embedding = [], chunk_StartLine = 1, chunk_EndLine = 1 \<rparr>,
         sr_Distance = 0, sr_RelatedChunks = [] \<rparr>,
      \<lparr> sr_Chunk = \<lparr> chunk_ChunkID = 2, chunk_FileID = 1, chunk_ContentSnippet = ''second'',
                      chunk_Embedding = [], chunk_StartLine = 2, chunk_EndLine = 2 \<rparr>,
         sr_Distance = 1, sr_RelatedChunks = [] \<rparr>]"

section \<open>File filter (pkg/filter: ShouldIndexFile)\<close>

text \<open>
  Two functions of the Go standard library are parameters: \<open>filepath.Abs\<close> (\<open>None\<close> is
  its error; on an absolute path it returns the cleaned path) and \<open>regexp.MatchString\<close>,
  pattern first (\<open>None\<close> is a pattern that does not compile).
\<close>

datatype filter_error = AbsError

text \<open>
  The loop over a pattern list: an invalid pattern is skipped (\<open>continue\<close>), the first
  match ends the loop.
\<close>

fun matchesAny :: "(string \<Rightarrow> string \<Rightarrow> bool option) \<Rightarrow> string list \<Rightarrow> string \<Rightarrow> bool" where
  "matchesAny MatchString [] absPath = False"
| "matchesAny MatchString (pattern # patterns) absPath =
     (case MatchString pattern absPath of
        None \<Rightarrow> matchesAny MatchString patterns absPath
      | Some matched \<Rightarrow> if matched then True else matchesAny MatchString patterns absPath)"

definition ShouldIndexFile ::
  "(string \<Rightarrow> string option) \<Rightarrow> (string \<Rightarrow> string \<Rightarrow> bool option) \<Rightarrow>
   string \<Rightarrow> string list \<Rightarrow> string list \<Rightarrow> filter_error + bool" where
  "ShouldIndexFile Abs MatchString filePath blacklist whitelist =
     (case Abs filePath of
        None \<Rightarrow> Inl AbsError
      | Some absPath \<Rightarrow>
          (if \<not> matchesAny MatchString blacklist absPath then Inr True
           else if matchesAny MatchString whitelist absPath then Inr True
           else Inr False))"

text \<open>
  Stand-ins for evaluation: every path is already absolute and clean; a pattern matches
  when it is a suffix of the path, and a pattern starting with \<open>(\<close> does not compile.
\<close>

definition sample_Abs :: "string \<Rightarrow> string option" where
  "sample_Abs p = Some p"

definition sample_MatchString :: "string \<Rightarrow> string \<Rightarrow> bool option" where
  "sample_MatchString pattern s = (if HasPrefix pattern ''('' then None else Some (HasSuffix s pattern))"

section \<open>Graph-extraction provider adapter (pkg/llm: ParseJSONL)\<close>

text \<open>
  \<open>strings.TrimSpace\<close> removes leading and trailing Unicode white space. On the UTF-8
  bytes of a Go string these are the six ASCII characters \<open>\t \n \v \f \r\<close> and space, and
  the encodings of U+0085, U+00A0, U+1680, U+2000 to U+200A, U+2028, U+2029, U+202F,
  U+205F and U+3000.
\<close>

definition spaceRunes :: "string list" where
  "spaceRunes =
     [[CHR 0x09], [CHR 0x0A], [CHR 0x0B], [CHR 0x0C], [CHR 0x0D], [CHR 0x20],
      [CHR 0xC2, CHR 0x85], [CHR 0xC2, CHR 0xA0], [CHR 0xE1, CHR 0x9A, CHR 0x80],
      [CHR 0xE2, CHR 0x80, CHR 0x80], [CHR 0xE2, CHR 0x80, CHR 0x81], [CHR 0xE2, CHR 0x80, CHR 0x82],
      [CHR 0xE2, CHR 0x80, CHR 0x83], [CHR 0xE2, CHR 0x80, CHR 0x84], [CHR 0xE2, CHR 0x80, CHR 0x85],
      [CHR 0xE2, CHR 0x80, CHR 0x86], [CHR 0xE2, CHR 0x80, CHR 0x87], [CHR 0xE2, CHR 0x80, CHR 0x88],
      [CHR 0xE2, CHR 0x80, CHR 0x89], [CHR 0xE2, CHR 0x80, CHR 0x8A], [CHR 0xE2, CHR 0x80, CHR 0xA8],
      [CHR 0xE2, CHR 0x80, CHR 0xA9], [CHR 0xE2, CHR 0x80, CHR 0xAF], [CHR 0xE2, CHR 0x81, CHR 0x9F],
      [CHR 0xE3, CHR 0x80, CHR 0x80]]"

text \<open>The length of the first of the given byte sequences that starts \<open>s\<close>, or 0.\<close>

definition leadingLen :: "string list \<Rightarrow> string \<Rightarrow> nat" where
  "leadingLen seqs s =
     (case find (\<lambda>q. q \<noteq> [] \<and> take (length q) s = q) seqs of None \<Rightarrow> 0 | Some q \<Rightarrow> length q)"

lemma leadingLen_Nil: "leadingLen seqs [] = 0"
  by (auto simp: leadingLen_def split: option.splits dest: find_Some_iff [THEN iffD1])

function trimLeading :: "string list \<Rightarrow> string \<Rightarrow> string" where
  "trimLeading seqs s =
     (if leadingLen seqs s = 0 then s else trimLeading seqs (drop (leadingLen seqs s) s))"
  by pat_completeness auto
termination
proof (relation "measure (\<lambda>(seqs, s). length s)")
  fix seqs :: "string list" and s :: string
  assume "leadingLen seqs s \<noteq> 0"
  then have "s \<noteq> []" using leadingLen_Nil [of seqs] by auto
  with \<open>leadingLen seqs s \<noteq> 0\<close>
  show "((seqs, drop (leadingLen seqs s) s), (seqs, s)) \<in> measure (\<lambda>(seqs, s). length s)"
    by simp
qed simp

declare trimLeading.simps [simp del]

definition TrimSpace :: "string \<Rightarrow> string" where
  "TrimSpace s = rev (trimLeading (map rev spaceRunes) (rev (trimLeading spaceRunes s)))"

text \<open>\<open>strings.Split(s, "\n")\<close>: always at least one piece.\<close>

fun splitLines :: "string \<Rightarrow> string list" where
  "splitLines [] = [[]]"
| "splitLines (c # cs) =
     (if c = nl then [] # splitLines cs
      else (case splitLines cs of [] \<Rightarrow> [[c]] | l # ls \<Rightarrow> (c # l) # ls))"

definition stripMarkdownCodeFence :: "string \<Rightarrow> string" where
  "stripMarkdownCodeFence s0 =
     (let s = TrimSpace s0 in
      if HasPrefix s ''```'' then
        (if nl \<notin> set s then s
         else
           (let s1 = drop (length (takeWhile (\<lambda>c. c \<noteq> nl) s) + 1) s;
                s2 = (if HasSuffix s1 ''```'' then take (length s1 - 3) s1 else s1)
            in TrimSpace s2))
      else s)"

record ChunkMetadata =
  md_ChunkID :: int
  md_FileID :: int

record LLMEdge =
  Source :: string
  SourceType :: string
  Target :: string
  TargetType :: string
  RelationType :: string

record EdgeWithMetadata = LLMEdge +
  ewm_ChunkID :: int
  ewm_FileID :: int

text \<open>The anonymous struct that a line is unmarshalled into.\<close>

record ParsedLine =
  pl_Chunk :: int
  pl_Source :: string
  pl_SourceType :: string
  pl_Target :: string
  pl_TargetType :: string
  pl_RelationType :: string

datatype line_error = UnmarshalError | InvalidChunkNumber int

datatype parse_error = FailedToParseJSONL "(nat \<times> line_error) list"

definition mkEdge :: "ParsedLine \<Rightarrow> ChunkMetadata \<Rightarrow> EdgeWithMetadata" where
  "mkEdge parsed metadata =
     \<lparr> Source = pl_Source parsed, SourceType = pl_SourceType parsed, Target = pl_Target parsed,
       TargetType = pl_TargetType parsed, RelationType = pl_RelationType parsed,
       ewm_ChunkID = md_ChunkID metadata, ewm_FileID = md_FileID metadata \<rparr>"

text \<open>
  The loop over the lines; \<open>json.Unmarshal\<close> into the struct is a parameter (\<open>None\<close> is
  its error). The result is the pair of the slices \<open>edges\<close> and \<open>errors\<close>, each in line
  order; an error records its 1-based line number.
\<close>

fun parseLines ::
  "(string \<Rightarrow> ParsedLine option) \<Rightarrow> (int \<rightharpoonup> ChunkMetadata) \<Rightarrow> nat \<Rightarrow> string list \<Rightarrow>
   EdgeWithMetadata list \<times> (nat \<times> line_error) list" where
  "parseLines Unmarshal chunkMapping lineNum [] = ([], [])"
| "parseLines Unmarshal chunkMapping lineNum (l # ls) =
     (let line = TrimSpace l;
          rest = parseLines Unmarshal chunkMapping (lineNum + 1) ls
      in
      if line = [] then rest
      else if HasPrefix line ''```'' \<or> HasPrefix line ''`'' \<or> line = ''```json'' \<or> line = ''```''
        then rest
      else if \<not> HasPrefix line ''{'' then rest
      else
        (case Unmarshal line of
           None \<Rightarrow> (fst rest, (lineNum + 1, UnmarshalError) # snd rest)
         | Some parsed \<Rightarrow>
             (case chunkMapping (pl_Chunk parsed) of
                None \<Rightarrow> (fst rest, (lineNum + 1, InvalidChunkNumber (pl_Chunk parsed)) # snd rest)
              | Some metadata \<Rightarrow> (mkEdge parsed metadata # fst rest, snd rest))))"

definition ParseJSONL ::
  "(string \<Rightarrow> ParsedLine option) \<Rightarrow> string \<Rightarrow> (int \<rightharpoonup> ChunkMetadata) \<Rightarrow>
   parse_error + EdgeWithMetadata list" where
  "ParseJSONL Unmarshal response chunkMapping =
     (let lines = splitLines (stripMarkdownCodeFence response);
          r = parseLines Unmarshal chunkMapping 0 lines;
          edges = fst r; errors = snd r
      in
      if length edges > 0 then Inr edges
      else if length errors > 0 then Inl (FailedToParseJSONL (take (min 5 (length errors)) errors))
      else Inr edges)"

subsection \<open>The claim's words, for comparison with the loop\<close>

text \<open>
  A line yields a valid edge when, trimmed, it is not blank, is not a fence or other
  backtick line, starts with \<open>{\<close>, unmarshals, and names a chunk number of the mapping.
  A line is a parse error when it passes the three skips but does not unmarshal or
  names an unknown chunk number.
\<close>

definition skippedLine :: "string \<Rightarrow> bool" where
  "skippedLine l = (TrimSpace l = [] \<or> HasPrefix (TrimSpace l) ''`'' \<or> \<not> HasPrefix (TrimSpace l) ''{'')"

definition validEdge ::
  "(string \<Rightarrow> ParsedLine option) \<Rightarrow> (int \<rightharpoonup> ChunkMetadata) \<Rightarrow> string \<Rightarrow> EdgeWithMetadata option" where
  "validEdge Unmarshal chunkMapping l =
     (if skippedLine l then None
      else (case Unmarshal (TrimSpace l) of
              None \<Rightarrow> None
            | Some parsed \<Rightarrow> map_option (mkEdge parsed) (chunkMapping (pl_Chunk parsed))))"

definition parseErrorLine ::
  "(string \<Rightarrow> ParsedLine option) \<Rightarrow> (int \<rightharpoonup> ChunkMetadata) \<Rightarrow> string \<Rightarrow> bool" where
  "parseErrorLine Unmarshal chunkMapping l =
     (\<not> skippedLine l \<and>
      (case Unmarshal (TrimSpace l) of
         None \<Rightarrow> True
       | Some parsed \<Rightarrow> chunkMapping (pl_Chunk parsed) = None))"

text \<open>
  A stand-in for \<open>json.Unmarshal\<close>, for evaluation: a line \<open>{d}\<close> with a decimal digit
  \<open>d\<close> is an edge of chunk number \<open>d\<close>; every other line is a syntax error.
\<close>

definition sample_Unmarshal :: "string \<Rightarrow> ParsedLine option" where
  "sample_Unmarshal line =
     (case line of
        [a, d, b] \<Rightarrow>
          (if a = CHR ''{'' \<and> b = CHR ''}'' \<and> d \<in> set ''0123456789''
           then Some \<lparr> pl_Chunk = int (of_char d) - 48, pl_Source = ''main'', pl_SourceType = ''FUNCTION'',
                       pl_Target = ''run'', pl_TargetType = ''FUNCTION'', pl_RelationType = ''calls'' \<rparr>
           else None)
      | _ \<Rightarrow> None)"

definition sample_response :: string where
  "sample_response =
     ''```json'' @ [nl] @ ''{1}'' @ [nl] @ ''some words'' @ [nl] @ '' {x}'' @ [nl] @ [nl] @ ''{7}'' @ [nl] @ ''```''"

definition sample_mapping :: "int \<rightharpoonup> ChunkMetadata" where
  "sample_mapping = [1 \<mapsto> \<lparr> md_ChunkID = 41, md_FileID = 3 \<rparr>]"

definition responseLines :: "string \<Rightarrow> string list" where
  "responseLines response = splitLines (stripMarkdownCodeFence response)"

definition validEdges ::
  "(string \<Rightarrow> ParsedLine option) \<Rightarrow> (int \<rightharpoonup> ChunkMetadata) \<Rightarrow> string \<Rightarrow> EdgeWithMetadata list" where
  "validEdges Unmarshal chunkMapping response =
     List.map_filter (validEdge Unmarshal chunkMapping) (responseLines response)"

section \<open>The store: entities, edges and the extraction watermark\<close>

text \<open>
  \<open>INSERT OR IGNORE INTO entities (name, entity_type, chunk_id)\<close>; the id of the new row,
  or of the row that the unique key \<open>(name, entity_type, chunk_id)\<close> already holds.
\<close>

definition entityKeyIs :: "string \<Rightarrow> string \<Rightarrow> int \<Rightarrow> Entity \<Rightarrow> bool" where
  "entityKeyIs name entityType chunkID e =
     (entity_Name e = name \<and> entity_EntityType e = entityType \<and> entity_ChunkID e = chunkID)"

definition UpsertEntity :: "DB \<Rightarrow> string \<Rightarrow> string \<Rightarrow> int \<Rightarrow> DB \<times> int" where
  "UpsertEntity db name entityType chunkID =
     (case find (entityKeyIs name entityType chunkID) (entities db) of
        Some e \<Rightarrow> (db, entity_ID e)
      | None \<Rightarrow>
          (db\<lparr> entities := entities db @
                  [\<lparr> entity_ID = nextEntityID db, entity_Name = name,
                     entity_EntityType = entityType, entity_ChunkID = chunkID \<rparr>],
                nextEntityID := nextEntityID db + 1 \<rparr>,
           nextEntityID db))"

text \<open>
  \<open>INSERT INTO graph_edges ... VALUES (?, ?, ?, ?, 1.0) ON CONFLICT(source_entity_id,
  target_entity_id, chunk_id) DO UPDATE SET relation_type, weight\<close>.
\<close>

definition edgeKey :: "EntityEdge \<Rightarrow> int \<times> int \<times> int" where
  "edgeKey g = (ee_SourceEntityID g, ee_TargetEntityID g, ee_ChunkID g)"

definition UpsertEntityEdge :: "DB \<Rightarrow> int \<Rightarrow> int \<Rightarrow> string \<Rightarrow> int \<Rightarrow> DB" where
  "UpsertEntityEdge db sourceID targetID relationType chunkID =
     (if (sourceID, targetID, chunkID) \<in> set (map edgeKey (graph_edges db)) then
        db\<lparr> graph_edges := map (\<lambda>g. if edgeKey g = (sourceID, targetID, chunkID)
                                      then g\<lparr> ee_RelationType := relationType, ee_Weight := 1 \<rparr>
                                      else g) (graph_edges db) \<rparr>
      else
        db\<lparr> graph_edges := graph_edges db @
               [\<lparr> ee_SourceEntityID = sourceID, ee_TargetEntityID = targetID,
                  ee_RelationType = relationType, ee_ChunkID = chunkID, ee_Weight = 1 \<rparr>] \<rparr>)"

text \<open>
  The watermark. \<open>chunk_graph_state.chunk_id\<close> is the primary key; a chunk without a
  state row counts as not extracted.
\<close>

definition rowExtracted :: "GraphState list \<Rightarrow> int \<Rightarrow> bool" where
  "rowExtracted rows chunkID =
     (case find (\<lambda>g. gs_chunk_id g = chunkID) rows of
        None \<Rightarrow> False
      | Some g \<Rightarrow> gs_graph_extracted g)"

definition graphExtracted :: "DB \<Rightarrow> int \<Rightarrow> bool" where
  "graphExtracted db chunkID = rowExtracted (chunk_graph_state db) chunkID"

text \<open>
  \<open>SELECT v.chunk_id FROM vec_chunks v LEFT JOIN chunk_graph_state cgs ON ...
  WHERE cgs.graph_extracted IS NULL OR cgs.graph_extracted = 0 ORDER BY v.chunk_id LIMIT ?\<close>
\<close>

definition GetChunksNeedingGraphExtraction :: "DB \<Rightarrow> int \<Rightarrow> int list" where
  "GetChunksNeedingGraphExtraction db limit =
     sqlLimit limit
       (sort (map chunk_ChunkID (filter (\<lambda>v. \<not> graphExtracted db (chunk_ChunkID v)) (vec_chunks db))))"

text \<open>
  One execution of the prepared statement \<open>INSERT INTO chunk_graph_state (chunk_id,
  graph_extracted, extracted_at) VALUES (?, 1, ?) ON CONFLICT(chunk_id) DO UPDATE SET
  graph_extracted = 1, extracted_at = excluded.extracted_at\<close>.
\<close>

definition markChunk :: "nat \<Rightarrow> GraphState list \<Rightarrow> int \<Rightarrow> GraphState list" where
  "markChunk now rows chunkID =
     (if chunkID \<in> set (map gs_chunk_id rows) then
        map (\<lambda>g. if gs_chunk_id g = chunkID
                 then g\<lparr> gs_graph_extracted := True, gs_extracted_at := now \<rparr> else g) rows
      else rows @ [\<lparr> gs_chunk_id = chunkID, gs_graph_extracted = True, gs_extracted_at = now \<rparr>])"

text \<open>
  The statements run inside one transaction that is committed at the end: the new
  table replaces the old one in a single step.
\<close>

definition MarkChunksGraphExtracted :: "DB \<Rightarrow> int list \<Rightarrow> nat \<Rightarrow> DB" where
  "MarkChunksGraphExtracted db chunkIDs now =
     (if chunkIDs = [] then db
      else db\<lparr> chunk_graph_state := foldl (markChunk now) (chunk_graph_state db) chunkIDs \<rparr>)"

section \<open>Graph worker (pkg/indexer: ProcessGraphBatch, processChunks)\<close>

record ChunkInput =
  ci_ChunkID :: int
  ci_FileID :: int
  ci_FilePath :: string
  ci_Content :: string

datatype provider_error = ProviderError string

datatype graph_error = BatchError nat provider_error

definition toChunkInput :: "ChunkWithPath \<Rightarrow> ChunkInput" where
  "toChunkInput chunk =
     \<lparr> ci_ChunkID = cwp_ChunkID chunk, ci_FileID = cwp_FileID chunk,
       ci_FilePath = cwp_FilePath chunk, ci_Content = cwp_ContentSnippet chunk \<rparr>"

text \<open>
  Storing one returned edge: both entities, then the edge; \<open>totalEdges\<close> counts it.
\<close>

definition storeEdge :: "DB \<Rightarrow> EdgeWithMetadata \<Rightarrow> DB" where
  "storeEdge db edgeWithMeta =
     (let r1 = UpsertEntity db (Source edgeWithMeta) (SourceType edgeWithMeta) (ewm_ChunkID edgeWithMeta);
          r2 = UpsertEntity (fst r1) (Target edgeWithMeta) (TargetType edgeWithMeta) (ewm_ChunkID edgeWithMeta)
      in UpsertEntityEdge (fst r2) (snd r1) (snd r2) (RelationType edgeWithMeta) (ewm_ChunkID edgeWithMeta))"

definition storeEdges :: "DB \<Rightarrow> EdgeWithMetadata list \<Rightarrow> DB" where
  "storeEdges db edges = foldl storeEdge db edges"

text \<open>
  The loop \<open>for i := 0; i < len(dbChunks); i += batchSize\<close> over the chunks not yet sent.
  The provider's \<open>ExtractEdgesBatch\<close> is a parameter. The result is the store, the edge
  count and the error. The code enters the loop with \<open>1 \<le> batchSize\<close>; with
  \<open>batchSize = 0\<close> the Go loop would not end, which is \<open>None\<close>.
\<close>

function batchLoop ::
  "(ChunkInput list \<Rightarrow> provider_error + EdgeWithMetadata list) \<Rightarrow> nat \<Rightarrow> DB \<Rightarrow> ChunkWithPath list \<Rightarrow>
   nat \<Rightarrow> nat \<Rightarrow> (DB \<times> nat \<times> graph_error option) option" where
  "batchLoop ExtractEdgesBatch batchSize db remaining batchNum totalEdges =
     (if remaining = [] then Some (db, totalEdges, None)
      else if batchSize = 0 then None
      else
        (case ExtractEdgesBatch (map toChunkInput (take batchSize remaining)) of
           Inl err \<Rightarrow> Some (db, totalEdges, Some (BatchError (batchNum + 1) err))
         | Inr edges \<Rightarrow>
             batchLoop ExtractEdgesBatch batchSize (storeEdges db edges) (drop batchSize remaining)
               (batchNum + 1) (totalEdges + length edges)))"
  by pat_completeness auto
termination
  by (relation "measure (\<lambda>(p, batchSize, db, remaining, batchNum, totalEdges). length remaining)") auto

declare batchLoop.simps [simp del]

definition ProcessGraphBatch ::
  "Config \<Rightarrow> (ChunkInput list \<Rightarrow> provider_error + EdgeWithMetadata list) \<Rightarrow> DB \<Rightarrow> int list \<Rightarrow>
   (DB \<times> nat \<times> graph_error option) option" where
  "ProcessGraphBatch cfg ExtractEdgesBatch db chunkIDs =
     (if chunkIDs = [] then Some (db, 0, None)
      else
        (let dbChunks = GetChunksByIDs db chunkIDs in
         if dbChunks = [] then Some (db, 0, None)
         else
           (let batchSize0 = (if GraphBatchSize cfg \<le> 0 then 100 else GraphBatchSize cfg);
                batchSize = (if batchSize0 > int (length dbChunks) then int (length dbChunks) else batchSize0)
            in batchLoop ExtractEdgesBatch (nat batchSize) db dbChunks 0 0)))"

text \<open>
  \<open>processChunks\<close> with the worker's \<open>batchSize\<close> (chunks per poll): the store after the
  tick.
\<close>

definition processChunks ::
  "int \<Rightarrow> Config \<Rightarrow> (ChunkInput list \<Rightarrow> provider_error + EdgeWithMetadata list) \<Rightarrow> DB \<Rightarrow> nat \<Rightarrow> DB option" where
  "processChunks gwBatchSize cfg ExtractEdgesBatch db now =
     (let chunkIDs = GetChunksNeedingGraphExtraction db gwBatchSize in
      if chunkIDs = [] then Some db
      else
        (case ProcessGraphBatch cfg ExtractEdgesBatch db chunkIDs of
           None \<Rightarrow> None
         | Some (db', edgeCount, Some err) \<Rightarrow> Some db'
         | Some (db', edgeCount, None) \<Rightarrow> Some (MarkChunksGraphExtracted db' chunkIDs now)))"

subsection \<open>The claim's words: the provider calls of a batch\<close>

text \<open>
  The sub-batches of size \<open>n\<close> of a list, and the inputs of the provider calls that a
  batch of chunk ids stands for: the fetched chunks, cut into sub-batches of the
  configured size (100 when the configured size is not positive, at most the number of
  chunks).
\<close>

function subBatches :: "nat \<Rightarrow> 'a list \<Rightarrow> 'a list list" where
  "subBatches n xs = (if xs = [] \<or> n = 0 then [] else take n xs # subBatches n (drop n xs))"
  by pat_completeness auto
termination
  by (relation "measure (\<lambda>(n, xs). length xs)") auto

declare subBatches.simps [simp del]

definition providerCalls :: "Config \<Rightarrow> DB \<Rightarrow> int list \<Rightarrow> ChunkInput list list" where
  "providerCalls cfg db chunkIDs =
     (let dbChunks = GetChunksByIDs db chunkIDs;
          size = min (if GraphBatchSize cfg \<le> 0 then 100 else nat (GraphBatchSize cfg)) (length dbChunks)
      in map (map toChunkInput) (subBatches size dbChunks))"

text \<open>
  The rows of the graph tables that a retry could duplicate: the entity rows and the keys
  of the edge rows.
\<close>

definition edgeKeys :: "DB \<Rightarrow> (int \<times> int \<times> int) list" where
  "edgeKeys db = map edgeKey (graph_edges db)"

text \<open>The store after the edges returned for a list of provider calls have been stored.\<close>

definition storeReturned ::
  "(ChunkInput list \<Rightarrow> provider_error + EdgeWithMetadata list) \<Rightarrow> DB \<Rightarrow> ChunkInput list list \<Rightarrow> DB" where
  "storeReturned ExtractEdgesBatch db calls =
     foldl (\<lambda>d c. case ExtractEdgesBatch c of Inl err \<Rightarrow> d | Inr edges \<Rightarrow> storeEdges d edges) db calls"

text \<open>
  Stand-ins for the provider, for evaluation: one \<open>calls\<close> edge per chunk of the call;
  the second provider times out on every call that contains chunk 2.
\<close>

definition sample_edges :: "ChunkInput list \<Rightarrow> EdgeWithMetadata list" where
  "sample_edges chunks =
     map (\<lambda>c. \<lparr> Source = ''main'', SourceType = ''FUNCTION'', Target = ''run'', TargetType = ''FUNCTION'',
                 RelationType = ''calls'', ewm_ChunkID = ci_ChunkID c, ewm_FileID = ci_FileID c \<rparr>) chunks"

definition sample_provider :: "ChunkInput list \<Rightarrow> provider_error + EdgeWithMetadata list" where
  "sample_provider chunks = Inr (sample_edges chunks)"

definition sample_failing_provider :: "ChunkInput list \<Rightarrow> provider_error + EdgeWithMetadata list" where
  "sample_failing_provider chunks =
     (if 2 \<in> set (map ci_ChunkID chunks) then Inl (ProviderError ''timeout'')
      else Inr (sample_edges chunks))"

definition sample_chunk_input :: "int \<Rightarrow> string \<Rightarrow> ChunkInput" where
  "sample_chunk_input i snippet =
     \<lparr> ci_ChunkID = i, ci_FileID = 1, ci_FilePath = ''/p/a.go'', ci_Content = snippet \<rparr>"

text \<open>
  An edge is covered by the graph tables when both its entities have rows and the edge
  key built from their ids is present: storing it again adds no row.
\<close>

definition covered :: "Entity list \<Rightarrow> (int \<times> int \<times> int) list \<Rightarrow> EdgeWithMetadata \<Rightarrow> bool" where
  "covered ents keys e =
     (case find (entityKeyIs (Source e) (SourceType e) (ewm_ChunkID e)) ents of
        None \<Rightarrow> False
      | Some s \<Rightarrow>
          (case find (entityKeyIs (Target e) (TargetType e) (ewm_ChunkID e)) ents of
             None \<Rightarrow> False
           | Some t \<Rightarrow> (entity_ID s, entity_ID t, ewm_ChunkID e) \<in> set keys))"

definition sample_graph_cfg :: Config where
  "sample_graph_cfg = DefaultConfig\<lparr> GraphBatchSize := 1 \<rparr>"

section \<open>Embedding pipeline (pkg/indexer: IndexFile; pkg/worker; cmd/chainsaw: queueFile)\<close>

text \<open>
  The environment of the pipeline: the file system (content and modification time of a
  path, \<open>None\<close> when \<open>os.Open\<close>, \<open>os.ReadFile\<close> and \<open>os.Stat\<close> fail), and the
  functions that are parameters: \<open>filepath.Abs\<close>, \<open>http.DetectContentType\<close>, the
  lowercase-hex SHA-256 digest, the embedding provider's \<open>Embed\<close>, and \<open>Error()\<close>, the
  text of an error.
\<close>

datatype index_error =
    FailedToCheckFileType
  | FailedToReadFile
  | FailedToGenerateEmbeddings provider_error
  | FailedToInsertChunk db_error
  | IndexOutOfRange

record Env =
  fs :: "string \<Rightarrow> (string \<times> int) option"
  env_Abs :: "string \<Rightarrow> string option"
  DetectContentType :: "string \<Rightarrow> string"
  sha256hex :: "string \<Rightarrow> string"
  Embed :: "string list \<Rightarrow> provider_error + float32 list list"
  errorText :: "index_error \<Rightarrow> string"

text \<open>
  What the pipeline does to the chunk table and the provider, in order: the ghost
  counterpart of the call tracking of the repository's mock client and mock database.
\<close>

datatype op = DeletedChunks int "int list" | EmbedCall "string list" | InsertedChunk int

record World =
  w_db :: DB
  w_log :: "op list"

primrec Contains :: "string \<Rightarrow> string \<Rightarrow> bool" where
  "Contains [] sub = (sub = [])"
| "Contains (c # cs) sub = (HasPrefix (c # cs) sub \<or> Contains cs sub)"

definition isBinaryFile :: "Env \<Rightarrow> string \<Rightarrow> index_error + bool" where
  "isBinaryFile env path =
     (case fs env path of
        None \<Rightarrow> Inl FailedToCheckFileType
      | Some (content, modTime) \<Rightarrow>
          (let contentType = DetectContentType env (take 512 content) in
           if HasPrefix contentType ''application/'' then
             Inr (\<not> (\<exists>a \<in> set [''json'', ''xml'', ''javascript'', ''x-sh'', ''x-perl'', ''x-python''].
                        Contains contentType a))
           else Inr (\<not> HasPrefix contentType ''text/'')))"

text \<open>
  The loop of \<open>processBatch\<close> over the chunks of an embedding batch: \<open>embeddings[i]\<close>
  panics when the provider returned fewer vectors than texts.
\<close>

fun insertChunks :: "World \<Rightarrow> Chunk list \<Rightarrow> float32 list list \<Rightarrow> index_error option \<times> World" where
  "insertChunks w [] embeddings = (None, w)"
| "insertChunks w (chunk # chunks) [] = (Some IndexOutOfRange, w)"
| "insertChunks w (chunk # chunks) (e # embeddings) =
     (case InsertChunk (w_db w) (FileID chunk) (Content chunk) e (StartLine chunk) (EndLine chunk) of
        Inl err \<Rightarrow> (Some (FailedToInsertChunk err), w)
      | Inr (db', chunkID) \<Rightarrow>
          insertChunks \<lparr> w_db = db', w_log = w_log w @ [InsertedChunk chunkID] \<rparr> chunks embeddings)"

definition processEmbedBatch :: "Env \<Rightarrow> World \<Rightarrow> Chunk list \<Rightarrow> index_error option \<times> World" where
  "processEmbedBatch env w chunks =
     (let texts = map Content chunks;
          w1 = w\<lparr> w_log := w_log w @ [EmbedCall texts] \<rparr>
      in case Embed env texts of
           Inl err \<Rightarrow> (Some (FailedToGenerateEmbeddings err), w1)
         | Inr embeddings \<Rightarrow> insertChunks w1 chunks embeddings)"

text \<open>
  \<open>for i := 0; i < len(chunks); i += idx.config.BatchSize\<close> over the chunks not yet
  embedded. With \<open>BatchSize = 0\<close> the loop never ends (\<open>None\<close>).
\<close>

function embedLoop :: "Config \<Rightarrow> Env \<Rightarrow> World \<Rightarrow> Chunk list \<Rightarrow> (index_error option \<times> World) option" where
  "embedLoop cfg env w remaining =
     (if remaining = [] then Some (None, w)
      else if BatchSize cfg = 0 then None
      else
        (case processEmbedBatch env w (take (BatchSize cfg) remaining) of
           (Some err, w') \<Rightarrow> Some (Some err, w')
         | (None, w') \<Rightarrow> embedLoop cfg env w' (drop (BatchSize cfg) remaining)))"
  by pat_completeness auto
termination
  by (relation "measure (\<lambda>(cfg, env, w, remaining). length remaining)") auto

declare embedLoop.simps [simp del]

definition IndexFile :: "Config \<Rightarrow> Env \<Rightarrow> World \<Rightarrow> string \<Rightarrow> nat \<Rightarrow> (index_error option \<times> World) option" where
  "IndexFile cfg env w filePath now =
     (case isBinaryFile env filePath of
        Inl err \<Rightarrow> Some (Some err, w)
      | Inr isBinary \<Rightarrow>
          if isBinary then Some (None, w)
          else
            (case fs env filePath of
               None \<Rightarrow> Some (Some FailedToReadFile, w)
             | Some (content, modTime) \<Rightarrow>
                 (let hash = sha256hex env content;
                      up = UpsertFile (w_db w) filePath modTime hash now;
                      fileID = snd up;
                      old = map chunk_ChunkID (filter (\<lambda>c. chunk_FileID c = fileID) (vec_chunks (fst up)));
                      w1 = \<lparr> w_db = DeleteChunksForFile (fst up) fileID,
                             w_log = w_log w @ [DeletedChunks fileID old] \<rparr>
                  in case chunkContent cfg content fileID filePath of
                       None \<Rightarrow> None
                     | Some chunks \<Rightarrow>
                         if chunks = [] then Some (None, w1) else embedLoop cfg env w1 chunks)))"

subsection \<open>The embedding worker\<close>

definition handleFailure :: "int \<Rightarrow> Env \<Rightarrow> DB \<Rightarrow> File \<Rightarrow> index_error \<Rightarrow> nat \<Rightarrow> DB" where
  "handleFailure maxRetries env db file indexErr now =
     (let retryCount = file_RetryCount file + 1 in
      if retryCount \<ge> maxRetries
      then MarkFileFailed db (file_ID file) (errorText env indexErr) retryCount
      else MarkFilePending db (file_Path file) (file_LastModTime file) (file_ContentHash file) now)"

definition processFile :: "int \<Rightarrow> Config \<Rightarrow> Env \<Rightarrow> World \<Rightarrow> File \<Rightarrow> nat \<Rightarrow> World option" where
  "processFile maxRetries cfg env w file now =
     (case IndexFile cfg env (w\<lparr> w_db := MarkFileProcessing (w_db w) (file_ID file) \<rparr>) (file_Path file) now of
        None \<Rightarrow> None
      | Some (Some err, w') \<Rightarrow> Some (w'\<lparr> w_db := handleFailure maxRetries env (w_db w') file err now \<rparr>)
      | Some (None, w') \<Rightarrow> Some (w'\<lparr> w_db := MarkFileIndexed (w_db w') (file_ID file) now \<rparr>))"

fun processFiles :: "int \<Rightarrow> Config \<Rightarrow> Env \<Rightarrow> World \<Rightarrow> File list \<Rightarrow> nat \<Rightarrow> World option" where
  "processFiles maxRetries cfg env w [] now = Some w"
| "processFiles maxRetries cfg env w (file # rest) now =
     (case processFile maxRetries cfg env w file now of
        None \<Rightarrow> None
      | Some w' \<Rightarrow> processFiles maxRetries cfg env w' rest now)"

text \<open>One tick of the worker: \<open>processBatch\<close> with the worker's batch size and maximum.\<close>

definition workerTick :: "int \<Rightarrow> int \<Rightarrow> Config \<Rightarrow> Env \<Rightarrow> World \<Rightarrow> nat \<Rightarrow> World option" where
  "workerTick batchSize maxRetries cfg env w now =
     (case GetPendingFiles (w_db w) batchSize of
        Inl err \<Rightarrow> Some w
      | Inr pending \<Rightarrow> processFiles maxRetries cfg env w pending now)"

datatype queue_error = FailedToGetAbsolutePath | QueueFailedToReadFile

definition queueFile :: "Env \<Rightarrow> DB \<Rightarrow> string \<Rightarrow> nat \<Rightarrow> queue_error + DB" where
  "queueFile env db path now =
     (case env_Abs env path of
        None \<Rightarrow> Inl FailedToGetAbsolutePath
      | Some absPath \<Rightarrow>
          (case fs env absPath of
             None \<Rightarrow> Inl QueueFailedToReadFile
           | Some (content, modTime) \<Rightarrow>
               Inr (MarkFilePending db absPath modTime (sha256hex env content) now)))"

subsection \<open>A run of the pipeline, for evaluation\<close>

text \<open>
  One text file of twelve bytes; stand-ins for the digest and the embedding provider
  (a two-dimensional vector per text). The worker runs with the settings of the daemon:
  batch size 5, at most 3 retries, the default indexer configuration.
\<close>

definition sample_path :: string where
  "sample_path = ''/p/a.txt''"

definition sample_content :: string where
  "sample_content = ''hello world'' @ [nl]"

definition sample_env :: Env where
  "sample_env =
     \<lparr> fs = (\<lambda>p. if p = sample_path then Some (sample_content, 100) else None),
       env_Abs = (\<lambda>p. Some p),
       DetectContentType = (\<lambda>b. ''text/plain; charset=utf-8''),
       sha256hex = (\<lambda>content. ''digest of '' @ content),
       Embed = (\<lambda>texts. Inr (map (\<lambda>t. [1, 0]) texts)),
       errorText = (\<lambda>e. ''indexing failed'') \<rparr>"

text \<open>The same environment after the file has vanished: every attempt to index it fails.\<close>

definition sample_env_vanished :: Env where
  "sample_env_vanished = sample_env\<lparr> fs := (\<lambda>p. None) \<rparr>"

text \<open>
  An \<open>index\<close> command for a path followed by one tick of the embedding worker; the log
  starts empty, so that it shows what this call did.
\<close>

definition indexCall :: "Env \<Rightarrow> string \<Rightarrow> nat \<Rightarrow> World \<Rightarrow> World option" where
  "indexCall env path now w =
     (case queueFile env (w_db w) path now of
        Inl err \<Rightarrow> None
      | Inr db \<Rightarrow> workerTick 5 3 DefaultConfig env \<lparr> w_db = db, w_log = [] \<rparr> (now + 1))"

definition sample_world :: World where
  "sample_world = \<lparr> w_db = emptyDB 2, w_log = [] \<rparr>"

text \<open>The store with the file queued once, and \<open>n\<close> worker ticks after the file vanished.\<close>

definition queued_world :: World where
  "queued_world =
     \<lparr> w_db = MarkFilePending (emptyDB 2) sample_path 100 (sha256hex sample_env sample_content) 0,
       w_log = [] \<rparr>"

fun failingTicks :: "nat \<Rightarrow> World \<Rightarrow> World option" where
  "failingTicks 0 w = Some w"
| "failingTicks (Suc n) w =
     (case workerTick 5 3 DefaultConfig sample_env_vanished w (Suc n) of
        None \<Rightarrow> None
      | Some w' \<Rightarrow> failingTicks n w')"

definition queuedRow :: "nat \<Rightarrow> nat \<Rightarrow> File" where
  "queuedRow indexedAt queuedAt =
     \<lparr> file_ID = 1, file_Path = sample_path, file_LastModTime = 100,
       file_ContentHash = sha256hex sample_env sample_content, file_IndexedAt = indexedAt,
       file_Status = Pending, file_ErrorMessage = None, file_RetryCount = 0,
       file_QueuedAt = Some queuedAt \<rparr>"

definition fileStates :: "World \<Rightarrow> (string \<times> status \<times> int) list" where
  "fileStates w = map (\<lambda>f. (file_Path f, file_Status f, file_RetryCount f)) (files (w_db w))"

section \<open>Theorems\<close>

subsection \<open>C1: the CWD filter of the single-hop generator\<close>

lemma generateSingleHopSQL_ignores_options:
  "generateSingleHopSQL q opts = generateSingleHopSQL q opts'"
  by (simp add: generateSingleHopSQL_def)

text \<open>
  C1. The claim: with a non-empty CWD option the WHERE clause of a single-hop query starts
  with \<open>(f1.path LIKE ? OR f2.path LIKE ?)\<close> and the CWD prefix pattern is bound twice
  before the label and edge-type arguments. On the query and CWD of the repository's own
  test \<open>TestTranspileWithCWD\<close> the generator returns the SQL of the unfiltered query: its
  WHERE clause starts with \<open>e1.entity_type = ?\<close>, and the arguments are only
  \<open>FUNCTION\<close> and \<open>calls\<close>, not the four arguments the test expects.
\<close>

theorem C1_cwd_filter_missing:
  "generateSingleHopSQL cwd_test_query cwd_test_opts =
     Inr \<lparr> SQL = ''SELECT e1.name AS f_name, e2.name AS t_name'' @ fromClause @
                 nl # ''WHERE e1.entity_type = ?'' @ nl # ''  AND g.relation_type = ?'',
           Args = [ArgStr ''FUNCTION'', ArgStr ''calls''] \<rparr>
   \<and> CWD cwd_test_opts \<noteq> []
   \<and> [ArgStr ''FUNCTION'', ArgStr ''calls''] \<noteq> cwd_test_wantArgs
   \<and> ''SELECT e1.name AS f_name, e2.name AS t_name'' @ fromClause @
         nl # ''WHERE e1.entity_type = ?'' @ nl # ''  AND g.relation_type = ?'' \<noteq> cwd_test_wantSQL"
  by (simp add: generateSingleHopSQL_def cwd_test_query_def cwd_test_opts_def selectItem_def
      whereConditions_def cwd_test_wantArgs_def cwd_test_wantSQL_def)

subsection \<open>C2: the retry counter\<close>

lemma handleFailure_below_maximum:
  "file_RetryCount file + 1 < maxRetries \<Longrightarrow>
   handleFailure maxRetries env db file indexErr now =
     MarkFilePending db (file_Path file) (file_LastModTime file) (file_ContentHash file) now"
  by (simp add: handleFailure_def)

lemma handleFailure_at_maximum:
  "maxRetries \<le> file_RetryCount file + 1 \<Longrightarrow>
   handleFailure maxRetries env db file indexErr now =
     MarkFileFailed db (file_ID file) (errorText env indexErr) (file_RetryCount file + 1)"
  by (simp add: handleFailure_def)

text \<open>
  The shape of the store while the vanished file is retried: its one row, pending, with
  retry count 0.
\<close>

lemma tick_keeps_file_queued:
  assumes "w = \<lparr> w_db = (emptyDB 2)\<lparr> files := [queuedRow ia t], nextFileID := 2 \<rparr>, w_log = [] \<rparr>"
  shows "workerTick 5 3 DefaultConfig sample_env_vanished w now =
           Some \<lparr> w_db = (emptyDB 2)\<lparr> files := [queuedRow ia now], nextFileID := 2 \<rparr>, w_log = [] \<rparr>"
  by (simp add: assms workerTick_def GetPendingFiles_def sqlLimit_def queuedRow_def emptyDB_def
      processFile_def IndexFile_def isBinaryFile_def sample_env_vanished_def sample_env_def
      MarkFileProcessing_def updateFile_def handleFailure_def MarkFilePending_def GetFile_def)

lemma failingTicks_keep_file_queued:
  "\<exists>t'. failingTicks n \<lparr> w_db = (emptyDB 2)\<lparr> files := [queuedRow ia t], nextFileID := 2 \<rparr>, w_log = [] \<rparr>
          = Some \<lparr> w_db = (emptyDB 2)\<lparr> files := [queuedRow ia t'], nextFileID := 2 \<rparr>, w_log = [] \<rparr>"
proof (induction n arbitrary: t)
  case 0
  show ?case by (rule exI [of _ t]) simp
next
  case (Suc n)
  show ?case
    using Suc [of "Suc n"] by (simp add: tick_keeps_file_queued [OF refl])
qed

lemma queued_world_shape:
  "queued_world = \<lparr> w_db = (emptyDB 2)\<lparr> files := [queuedRow 0 0], nextFileID := 2 \<rparr>, w_log = [] \<rparr>"
  by (simp add: queued_world_def MarkFilePending_def GetFile_def emptyDB_def queuedRow_def)

text \<open>
  C2. The claim: every failed attempt increments the row's retry counter, and a file
  that fails on every attempt ends failed, with the counter at the maximum, after that
  many attempts. The failure handler adds one to the counter it read and re-queues with
  mark-pending, which writes the counter back as 0: with the maximum 3 the file whose
  every attempt fails is, after any number \<open>n\<close> of worker ticks, still pending with retry
  count 0, and never failed.
\<close>

theorem C2_failing_file_is_never_marked_failed:
  "map_option fileStates (failingTicks n queued_world) = Some [(sample_path, Pending, 0)]"
proof -
  obtain t' where "failingTicks n queued_world =
      Some \<lparr> w_db = (emptyDB 2)\<lparr> files := [queuedRow 0 t'], nextFileID := 2 \<rparr>, w_log = [] \<rparr>"
    using failingTicks_keep_file_queued [of n 0 0] by (auto simp: queued_world_shape)
  then show ?thesis
    by (simp add: fileStates_def queuedRow_def)
qed

subsection \<open>C3: an unchanged file is indexed again\<close>

text \<open>
  Whatever the store holds for a text file that yields chunks, \<open>IndexFile\<close> first deletes
  the file's chunks and then calls the embedding provider: nothing in it depends on
  the stored digest.
\<close>

lemma insertChunks_log:
  "insertChunks w chunks embeddings = (r, w') \<Longrightarrow> \<exists>l. w_log w' = w_log w @ l"
proof (induction w chunks embeddings arbitrary: r w' rule: insertChunks.induct)
  case (1 w embeddings)
  then show ?case by simp
next
  case (2 w chunk chunks)
  then show ?case by simp
next
  case (3 w chunk chunks e embeddings)
  show ?case
  proof (cases "InsertChunk (w_db w) (FileID chunk) (Content chunk) e (StartLine chunk) (EndLine chunk)")
    case (Inl err)
    with 3(2) show ?thesis by simp
  next
    case (Inr p)
    obtain db' chunkID where p: "p = (db', chunkID)" by (cases p)
    from 3(2) Inr p have
      "insertChunks \<lparr> w_db = db', w_log = w_log w @ [InsertedChunk chunkID] \<rparr> chunks embeddings = (r, w')"
      by simp
    from 3(1) [OF Inr p [symmetric] this] show ?thesis by auto
  qed
qed

lemma processEmbedBatch_log:
  "processEmbedBatch env w chunks = (r, w') \<Longrightarrow>
   \<exists>l. w_log w' = w_log w @ EmbedCall (map Content chunks) # l"
proof (cases "Embed env (map Content chunks)")
  case (Inl err)
  assume "processEmbedBatch env w chunks = (r, w')"
  with Inl show ?thesis by (auto simp: processEmbedBatch_def Let_def)
next
  case (Inr embeddings)
  assume "processEmbedBatch env w chunks = (r, w')"
  with Inr have "insertChunks (w\<lparr> w_log := w_log w @ [EmbedCall (map Content chunks)] \<rparr>) chunks embeddings = (r, w')"
    by (simp add: processEmbedBatch_def Let_def)
  from insertChunks_log [OF this] show ?thesis by auto
qed

lemma embedLoop_log:
  "embedLoop cfg env w remaining = Some (r, w') \<Longrightarrow>
   \<exists>l. w_log w' = w_log w @ (if remaining = [] then []
                               else [EmbedCall (map Content (take (BatchSize cfg) remaining))]) @ l"
proof (induction cfg env w remaining arbitrary: r w' rule: embedLoop.induct)
  case (1 cfg env w remaining)
  show ?case
  proof (cases "remaining = []")
    case True
    with 1(2) show ?thesis by (subst (asm) embedLoop.simps) simp
  next
    case False
    from 1(2) False have bs: "BatchSize cfg \<noteq> 0"
      by (subst (asm) embedLoop.simps) (auto split: if_splits)
    obtain r1 w1 where pb: "processEmbedBatch env w (take (BatchSize cfg) remaining) = (r1, w1)"
      by (cases "processEmbedBatch env w (take (BatchSize cfg) remaining)")
    from processEmbedBatch_log [OF pb] obtain l1 where
      l1: "w_log w1 = w_log w @ EmbedCall (map Content (take (BatchSize cfg) remaining)) # l1" by blast
    show ?thesis
    proof (cases r1)
      case (Some err)
      with 1(2) False bs pb have "w' = w1"
        by (subst (asm) embedLoop.simps) simp
      with l1 False show ?thesis by simp
    next
      case None
      with 1(2) False bs pb have rec: "embedLoop cfg env w1 (drop (BatchSize cfg) remaining) = Some (r, w')"
        by (subst (asm) embedLoop.simps) simp
      from 1(1) [OF False bs pb [symmetric] None rec] obtain l2 where
        "w_log w' = w_log w1 @ (if drop (BatchSize cfg) remaining = [] then []
            else [EmbedCall (map Content (take (BatchSize cfg) (drop (BatchSize cfg) remaining)))]) @ l2"
        by blast
      with l1 False show ?thesis by simp
    qed
  qed
qed

lemma IndexFile_reindexes_whatever_is_stored:
  assumes nonbin: "isBinaryFile env filePath = Inr False"
    and present: "fs env filePath = Some (content, modTime)"
    and fid: "fileID = snd (UpsertFile (w_db w) filePath modTime (sha256hex env content) now)"
    and chunks: "chunkContent cfg content fileID filePath = Some chunks" "chunks \<noteq> []"
    and run: "IndexFile cfg env w filePath now = Some (r, w')"
  shows "\<exists>l. w_log w' =
           w_log w @
           DeletedChunks fileID (map chunk_ChunkID (filter (\<lambda>c. chunk_FileID c = fileID) (vec_chunks (w_db w)))) #
           EmbedCall (map Content (take (BatchSize cfg) chunks)) # l"
proof -
  let ?up = "UpsertFile (w_db w) filePath modTime (sha256hex env content) now"
  have vc: "vec_chunks (fst ?up) = vec_chunks (w_db w)"
    by (simp add: UpsertFile_def split: option.splits)
  let ?w1 = "\<lparr> w_db = DeleteChunksForFile (fst ?up) fileID,
               w_log = w_log w @ [DeletedChunks fileID
                 (map chunk_ChunkID (filter (\<lambda>c. chunk_FileID c = fileID) (vec_chunks (w_db w))))] \<rparr>"
  from run nonbin present fid chunks vc have "embedLoop cfg env ?w1 chunks = Some (r, w')"
    by (simp add: IndexFile_def Let_def)
  from embedLoop_log [OF this] chunks(2) show ?thesis by simp
qed

text \<open>
  C3. The claim: when content and modification time of a file are unchanged between two
  index calls, the second call deletes no chunks, inserts none and does not call the
  embedding provider. \<open>IndexFile\<close> never reads the stored digest: after the first call
  the store holds the file's modification time and digest and chunk 1, and the second call
  for the unchanged file deletes chunk 1, calls the provider with the same text and
  inserts chunk 2.
\<close>

theorem C3_unchanged_file_is_rechunked:
  "map_option w_log (indexCall sample_env sample_path 1 sample_world) =
     Some [DeletedChunks 1 [], EmbedCall [sample_content], InsertedChunk 1] \<and>
   map_option (\<lambda>w. map (\<lambda>f. (file_Path f, file_LastModTime f, file_ContentHash f)) (files (w_db w)))
     (indexCall sample_env sample_path 1 sample_world) =
     Some [(sample_path, 100, sha256hex sample_env sample_content)] \<and>
   fs sample_env sample_path = Some (sample_content, 100) \<and>
   map_option w_log
     (Option.bind (indexCall sample_env sample_path 1 sample_world) (indexCall sample_env sample_path 3)) =
     Some [DeletedChunks 1 [1], EmbedCall [sample_content], InsertedChunk 2]"
  by code_simp

subsection \<open>C4: the line range of a chunk\<close>

text \<open>
  For a positive chunk size the chunker returns, and every chunk it returns is the slice
  between its offsets, of at least the minimum length, with \<open>StartLine\<close> one more than
  the newlines before the start offset and \<open>EndLine\<close> the newlines before the end offset.
\<close>

lemma scanBackward_le: "scanBackward cb offset e \<le> e"
proof (induction cb offset e rule: scanBackward.induct)
  case (1 cb offset e)
  then show ?case
    by (subst scanBackward.simps) (auto simp: le_diff_conv)
qed

lemma alignEnd_le: "alignEnd cb offset e \<le> e"
  by (simp add: alignEnd_def scanBackward_le)

lemma windowEnd_le: "offset < n \<Longrightarrow> windowEnd cfg n offset \<le> n"
  by (auto simp: windowEnd_def Let_def)

lemma countLines_take_mono: "a \<le> b \<Longrightarrow> countLines (take a xs) \<le> countLines (take b xs)"
proof -
  assume "a \<le> b"
  then have "take b xs = take a xs @ take (b - a) (drop a xs)"
    by (metis le_add_diff_inverse take_add)
  then show ?thesis by (simp add: countLines_def)
qed

lemma mkChunk_invariant:
  assumes "offset < e" "e \<le> length cb" "MinChunkSize cfg \<le> e - offset"
  shows "chunkInvariant cfg cb (mkChunk cb fileID filePath offset e)"
  using assms countLines_take_mono [of offset e cb]
  by (simp add: chunkInvariant_def mkChunk_def)

lemma chunkLoop_invariant:
  assumes "chunkLoop cfg cb fileID filePath stride offset acc = Some chunks"
    and "\<forall>c \<in> set acc. chunkInvariant cfg cb c"
  shows "\<forall>c \<in> set chunks. chunkInvariant cfg cb c"
  using assms
proof (induction cfg cb fileID filePath stride offset acc rule: chunkLoop.induct)
  case (1 cfg cb fileID filePath stride offset acc)
  let ?o = "alignStart cb offset"
  let ?e = "alignEnd cb ?o (windowEnd cfg (length cb) offset)"
  have run: "chunkLoop cfg cb fileID filePath stride offset acc = Some chunks" by (rule 1(3))
  show ?case
  proof (cases "stride = 0 \<or> \<not> offset < length cb")
    case True
    with run 1(4) show ?thesis
      by (subst (asm) chunkLoop.simps) (auto split: if_splits)
  next
    case False
    then have s: "stride \<noteq> 0" and lt: "offset < length cb" by auto
    have ele: "?e \<le> length cb"
      using alignEnd_le [of cb ?o "windowEnd cfg (length cb) offset"] windowEnd_le [OF lt, of cfg]
      by simp
    show ?thesis
    proof (cases "?e \<le> ?o")
      case True
      with run s lt have "chunkLoop cfg cb fileID filePath stride (?o + min stride 100) acc = Some chunks"
        by (subst (asm) chunkLoop.simps) simp
      from 1(1) [OF s _ True this 1(4)] lt show ?thesis by simp
    next
      case skip: False
      define acc' where "acc' = (if MinChunkSize cfg \<le> ?e - ?o
                                 then acc @ [mkChunk cb fileID filePath ?o ?e] else acc)"
      have inv': "\<forall>c \<in> set acc'. chunkInvariant cfg cb c"
        using 1(4) skip ele mkChunk_invariant [of ?o ?e cb cfg fileID filePath]
        by (auto simp: acc'_def)
      show ?thesis
      proof (cases "length cb \<le> ?e")
        case True
        with run s lt skip have "chunks = acc'"
          by (subst (asm) chunkLoop.simps) (simp add: acc'_def)
        with inv' show ?thesis by simp
      next
        case False
        with run s lt skip have "chunkLoop cfg cb fileID filePath stride (?o + stride) acc' = Some chunks"
          by (subst (asm) chunkLoop.simps) (simp add: acc'_def)
        from 1(2) [OF s _ skip False this [unfolded acc'_def] inv' [unfolded acc'_def]] lt
        show ?thesis by simp
      qed
    qed
  qed
qed

lemma chunkContent_invariant:
  assumes "chunkContent cfg content fileID filePath = Some chunks"
  shows "\<forall>c \<in> set chunks. chunkInvariant cfg content c"
proof (cases "length content < MinChunkSize cfg")
  case True
  with assms show ?thesis by (simp add: chunkContent_def)
next
  case False
  show ?thesis
  proof (cases "length content \<le> ChunkSize cfg")
    case True
    with False assms show ?thesis
      by (auto simp: chunkContent_def chunkInvariant_def countLines_def)
  next
    case big: False
    with False assms obtain stride where
      "chunkLoop cfg content fileID filePath stride 0 [] = Some chunks"
      by (auto simp: chunkContent_def Let_def split: if_splits)
    from chunkLoop_invariant [OF this] show ?thesis by simp
  qed
qed

lemma chunkLoop_returns:
  "0 < stride \<Longrightarrow> \<exists>chunks. chunkLoop cfg cb fileID filePath stride offset acc = Some chunks"
proof (induction cfg cb fileID filePath stride offset acc rule: chunkLoop.induct)
  case (1 cfg cb fileID filePath stride offset acc)
  show ?case
    using 1 by (subst chunkLoop.simps) auto
qed

lemma chunkContent_returns:
  "0 < ChunkSize cfg \<Longrightarrow> \<exists>chunks. chunkContent cfg content fileID filePath = Some chunks"
  using chunkLoop_returns [of "ChunkSize cfg" cfg content fileID filePath 0 "[]"]
    chunkLoop_returns [of "ChunkSize cfg - ChunkOverlap cfg" cfg content fileID filePath 0 "[]"]
  by (auto simp: chunkContent_def Let_def)

text \<open>
  C4. The claim: every chunk has at least the minimum length, 1-based line numbers with
  \<open>start_line \<le> end_line\<close>, computed from the newline counts at its offsets. The code
  sets \<open>EndLine\<close> to the number of newlines before the end offset, which is the number of
  the last line only when the chunk ends in a newline. The one-line file \<open>hello world\<close>
  (default configuration) gives the chunk of lines 1 to 0, and the last chunk of a
  two-line text without a final newline (window of 20 bytes) gives lines 2 to 1.
\<close>

theorem C4_end_line_before_start_line:
  "chunkContent DefaultConfig ''hello world'' 1 ''a.txt'' =
     Some [\<lparr> FileID = 1, FilePath = ''a.txt'', Content = ''hello world'',
             StartOffset = 0, EndOffset = 11, StartLine = 1, EndLine = 0 \<rparr>] \<and>
   map_option (map (\<lambda>c. (StartOffset c, EndOffset c, StartLine c, EndLine c)))
     (chunkContent test_chunk_cfg two_lines 1 ''a.txt'') =
     Some [(0, 16, 1, 1), (16, 28, 2, 1)]"
  by code_simp

subsection \<open>C5: the extraction watermark\<close>

lemma UpsertEntity_frame [simp]:
  "chunk_graph_state (fst (UpsertEntity db n t c)) = chunk_graph_state db"
  "vec_chunks (fst (UpsertEntity db n t c)) = vec_chunks db"
  "files (fst (UpsertEntity db n t c)) = files db"
  "graph_edges (fst (UpsertEntity db n t c)) = graph_edges db"
  by (simp_all add: UpsertEntity_def split: option.splits)

lemma UpsertEntityEdge_frame [simp]:
  "chunk_graph_state (UpsertEntityEdge db s t r c) = chunk_graph_state db"
  "vec_chunks (UpsertEntityEdge db s t r c) = vec_chunks db"
  "files (UpsertEntityEdge db s t r c) = files db"
  "entities (UpsertEntityEdge db s t r c) = entities db"
  "nextEntityID (UpsertEntityEdge db s t r c) = nextEntityID db"
  by (simp_all add: UpsertEntityEdge_def)

lemma storeEdge_frame [simp]:
  "chunk_graph_state (storeEdge db e) = chunk_graph_state db"
  "vec_chunks (storeEdge db e) = vec_chunks db"
  "files (storeEdge db e) = files db"
  by (simp_all add: storeEdge_def Let_def)

lemma storeEdges_frame [simp]:
  "chunk_graph_state (storeEdges db es) = chunk_graph_state db"
  "vec_chunks (storeEdges db es) = vec_chunks db"
  "files (storeEdges db es) = files db"
  by (induction es arbitrary: db; simp add: storeEdges_def)+

lemma storeReturned_frame [simp]:
  "chunk_graph_state (storeReturned P db cs) = chunk_graph_state db"
  by (induction cs arbitrary: db) (simp_all add: storeReturned_def split: sum.splits)

lemma storeReturned_Cons:
  "storeReturned P db (c # cs) = storeReturned P (case P c of Inl err \<Rightarrow> db | Inr edges \<Rightarrow> storeEdges db edges) cs"
  by (simp add: storeReturned_def)

lemma subBatches_Nil [simp]: "subBatches n [] = []"
  by (simp add: subBatches.simps)

lemma subBatches_step: "xs \<noteq> [] \<Longrightarrow> 0 < n \<Longrightarrow> subBatches n xs = take n xs # subBatches n (drop n xs)"
  by (subst subBatches.simps) simp

lemma batchLoop_all_ok:
  assumes "0 < bs" "\<forall>c \<in> set (subBatches bs rem). \<not> isl (P (map toChunkInput c))"
  shows "\<exists>t. batchLoop P bs db rem k tot = Some (storeReturned P db (map (map toChunkInput) (subBatches bs rem)), t, None)"
  using assms
proof (induction P bs db rem k tot rule: batchLoop.induct)
  case (1 P bs db rem k tot)
  show ?case
  proof (cases "rem = []")
    case True
    then show ?thesis by (simp add: batchLoop.simps storeReturned_def)
  next
    case False
    with 1(2) have sb: "subBatches bs rem = take bs rem # subBatches bs (drop bs rem)"
      by (simp add: subBatches_step)
    with 1(3) obtain edges where ok: "P (map toChunkInput (take bs rem)) = Inr edges"
      by (cases "P (map toChunkInput (take bs rem))") auto
    have "\<forall>c \<in> set (subBatches bs (drop bs rem)). \<not> isl (P (map toChunkInput c))"
      using 1(3) sb by simp
    from 1(1) [OF False _ ok 1(2) this] 1(2)
    obtain t where "batchLoop P bs (storeEdges db edges) (drop bs rem) (k + 1) (tot + length edges) =
       Some (storeReturned P (storeEdges db edges) (map (map toChunkInput) (subBatches bs (drop bs rem))), t, None)"
      by auto
    then show ?thesis
      using False 1(2) ok sb
      by (subst batchLoop.simps) (simp add: storeReturned_Cons)
  qed
qed

lemma batchLoop_first_failure:
  assumes "0 < bs" "map (map toChunkInput) (subBatches bs rem) = pre @ c # rest"
    "\<forall>x \<in> set pre. \<not> isl (P x)" "isl (P c)"
  shows "\<exists>t err. batchLoop P bs db rem k tot = Some (storeReturned P db pre, t, Some err)"
  using assms
proof (induction P bs db rem k tot arbitrary: pre rule: batchLoop.induct)
  case (1 P bs db rem k tot)
  have ne: "rem \<noteq> []" using 1(3) by auto
  with 1(2) have sb: "subBatches bs rem = take bs rem # subBatches bs (drop bs rem)"
    by (simp add: subBatches_step)
  show ?case
  proof (cases pre)
    case Nil
    with 1(3) sb have "c = map toChunkInput (take bs rem)" by simp
    with 1(5) obtain err where "P (map toChunkInput (take bs rem)) = Inl err"
      by (cases "P (map toChunkInput (take bs rem))") auto
    then show ?thesis using ne 1(2) Nil
      by (subst batchLoop.simps) (simp add: storeReturned_def)
  next
    case (Cons p pre')
    with 1(3) sb have p: "p = map toChunkInput (take bs rem)"
      and tl: "map (map toChunkInput) (subBatches bs (drop bs rem)) = pre' @ c # rest" by simp_all
    from 1(4) Cons p obtain edges where ok: "P (map toChunkInput (take bs rem)) = Inr edges"
      by (cases "P (map toChunkInput (take bs rem))") auto
    have "\<forall>x \<in> set pre'. \<not> isl (P x)" using 1(4) Cons by simp
    from 1(1) [OF ne _ ok 1(2) tl this 1(5)] 1(2)
    obtain t err where "batchLoop P bs (storeEdges db edges) (drop bs rem) (k + 1) (tot + length edges) =
        Some (storeReturned P (storeEdges db edges) pre', t, Some err)" by auto
    then show ?thesis using ne 1(2) ok Cons p
      by (subst batchLoop.simps) (simp add: storeReturned_Cons)
  qed
qed


lemma find_map_mark:
  "find (\<lambda>g. gs_chunk_id g = j)
        (map (\<lambda>g. if gs_chunk_id g = i then g\<lparr> gs_graph_extracted := True, gs_extracted_at := now \<rparr> else g) rows)
   = map_option (\<lambda>g. if gs_chunk_id g = i then g\<lparr> gs_graph_extracted := True, gs_extracted_at := now \<rparr> else g)
       (find (\<lambda>g. gs_chunk_id g = j) rows)"
  by (induction rows) auto

lemma find_append: "find P (xs @ ys) = (case find P xs of None \<Rightarrow> find P ys | Some x \<Rightarrow> Some x)"
  by (induction xs) auto

lemma rowExtracted_markChunk:
  "rowExtracted (markChunk now rows i) j \<longleftrightarrow> j = i \<or> rowExtracted rows j"
proof (cases "i \<in> set (map gs_chunk_id rows)")
  case True
  then obtain g where "find (\<lambda>g. gs_chunk_id g = i) rows = Some g"
    by (cases "find (\<lambda>g. gs_chunk_id g = i) rows") (auto simp: find_None_iff)
  with True show ?thesis
    by (cases "find (\<lambda>g. gs_chunk_id g = j) rows")
       (auto simp: rowExtracted_def markChunk_def find_map_mark dest: find_Some_iff [THEN iffD1])
next
  case False
  then have "find (\<lambda>g. gs_chunk_id g = i) rows = None"
    by (auto simp: find_None_iff)
  with False show ?thesis
    by (auto simp: rowExtracted_def markChunk_def find_append split: option.splits)
qed

lemma rowExtracted_foldl:
  "rowExtracted (foldl (markChunk now) rows ids) j \<longleftrightarrow> j \<in> set ids \<or> rowExtracted rows j"
  by (induction ids arbitrary: rows) (auto simp: rowExtracted_markChunk)

lemma graphExtracted_Mark:
  "graphExtracted (MarkChunksGraphExtracted db ids now) j \<longleftrightarrow> j \<in> set ids \<or> graphExtracted db j"
  by (simp add: graphExtracted_def MarkChunksGraphExtracted_def rowExtracted_foldl)

lemma needing_not_extracted:
  "i \<in> set (GetChunksNeedingGraphExtraction db G) \<Longrightarrow> \<not> graphExtracted db i"
  by (auto simp: GetChunksNeedingGraphExtraction_def sqlLimit_def split: if_splits dest: in_set_takeD)

lemma edgeKeys_Upsert_entity [simp]: "edgeKeys (fst (UpsertEntity db n t c)) = edgeKeys db"
  by (simp add: edgeKeys_def)

lemma edgeKeys_UpsertEntityEdge:
  "edgeKeys (UpsertEntityEdge db s t r c) =
     (if (s, t, c) \<in> set (edgeKeys db) then edgeKeys db else edgeKeys db @ [(s, t, c)])"
  by (auto simp: UpsertEntityEdge_def edgeKeys_def edgeKey_def)

lemma UpsertEntity_found:
  "find (entityKeyIs n t c) (entities db) = Some x \<Longrightarrow> UpsertEntity db n t c = (db, entity_ID x)"
  by (simp add: UpsertEntity_def)

lemma UpsertEntity_entities:
  "\<exists>extra. entities (fst (UpsertEntity db n t c)) = entities db @ extra"
  by (simp add: UpsertEntity_def split: option.splits)

lemma UpsertEntity_then_found:
  "\<exists>x. find (entityKeyIs n t c) (entities (fst (UpsertEntity db n t c))) = Some x \<and>
       entity_ID x = snd (UpsertEntity db n t c)"
  by (auto simp: UpsertEntity_def find_append entityKeyIs_def split: option.splits)

lemma covered_storeEdge_same:
  assumes "covered (entities d) (edgeKeys d) e"
  shows "entities (storeEdge d e) = entities d \<and> edgeKeys (storeEdge d e) = edgeKeys d"
  using assms
  by (auto simp: covered_def storeEdge_def Let_def UpsertEntity_found edgeKeys_UpsertEntityEdge
      split: option.splits)

lemma covered_mono:
  "covered ents keys e \<Longrightarrow> set keys \<subseteq> set keys' \<Longrightarrow> covered (ents @ extra) keys' e"
  by (auto simp: covered_def find_append split: option.splits)

lemma storeEdge_grows:
  "(\<exists>extra. entities (storeEdge d e) = entities d @ extra) \<and> set (edgeKeys d) \<subseteq> set (edgeKeys (storeEdge d e))"
proof -
  obtain m1 where m1: "entities (fst (UpsertEntity d (Source e) (SourceType e) (ewm_ChunkID e))) = entities d @ m1"
    using UpsertEntity_entities by blast
  obtain m2 where m2: "entities (fst (UpsertEntity (fst (UpsertEntity d (Source e) (SourceType e) (ewm_ChunkID e)))
        (Target e) (TargetType e) (ewm_ChunkID e))) =
      entities (fst (UpsertEntity d (Source e) (SourceType e) (ewm_ChunkID e))) @ m2"
    using UpsertEntity_entities by blast
  show ?thesis
    by (auto simp: storeEdge_def Let_def m1 m2 edgeKeys_UpsertEntityEdge)
qed

lemma covered_after_other:
  "covered (entities d) (edgeKeys d) e \<Longrightarrow> covered (entities (storeEdge d e')) (edgeKeys (storeEdge d e')) e"
  using storeEdge_grows [of d e'] covered_mono by metis

lemma covered_after_self:
  "covered (entities (storeEdge d e)) (edgeKeys (storeEdge d e)) e"
proof -
  let ?d1 = "fst (UpsertEntity d (Source e) (SourceType e) (ewm_ChunkID e))"
  let ?s = "snd (UpsertEntity d (Source e) (SourceType e) (ewm_ChunkID e))"
  let ?d2 = "fst (UpsertEntity ?d1 (Target e) (TargetType e) (ewm_ChunkID e))"
  let ?t = "snd (UpsertEntity ?d1 (Target e) (TargetType e) (ewm_ChunkID e))"
  obtain x where x: "find (entityKeyIs (Source e) (SourceType e) (ewm_ChunkID e)) (entities ?d1) = Some x"
      "entity_ID x = ?s"
    using UpsertEntity_then_found by blast
  obtain m2 where m2: "entities ?d2 = entities ?d1 @ m2"
    using UpsertEntity_entities by blast
  have x2: "find (entityKeyIs (Source e) (SourceType e) (ewm_ChunkID e)) (entities ?d2) = Some x"
    using x(1) by (simp add: m2 find_append)
  obtain y where y: "find (entityKeyIs (Target e) (TargetType e) (ewm_ChunkID e)) (entities ?d2) = Some y"
      "entity_ID y = ?t"
    using UpsertEntity_then_found by blast
  show ?thesis
    using x2 y x(2)
    by (simp add: covered_def storeEdge_def Let_def edgeKeys_UpsertEntityEdge)
qed

lemma storeEdges_snoc: "storeEdges d (es @ [e]) = storeEdge (storeEdges d es) e"
  by (simp add: storeEdges_def)

lemma all_covered_after:
  "\<forall>e \<in> set es. covered (entities (storeEdges d es)) (edgeKeys (storeEdges d es)) e"
proof (induction es rule: rev_induct)
  case Nil
  show ?case by simp
next
  case (snoc e es)
  show ?case
    unfolding storeEdges_snoc
    using snoc covered_after_other covered_after_self by auto
qed

lemma covered_storeEdges_same:
  "\<forall>e \<in> set es. covered (entities d) (edgeKeys d) e \<Longrightarrow>
   entities (storeEdges d es) = entities d \<and> edgeKeys (storeEdges d es) = edgeKeys d"
proof (induction es arbitrary: d)
  case Nil
  show ?case by (simp add: storeEdges_def)
next
  case (Cons e es)
  have same: "entities (storeEdge d e) = entities d \<and> edgeKeys (storeEdge d e) = edgeKeys d"
    using Cons.prems covered_storeEdge_same by simp
  then have "\<forall>x \<in> set es. covered (entities (storeEdge d e)) (edgeKeys (storeEdge d e)) x"
    using Cons.prems by simp
  from Cons.IH [OF this] same show ?case
    by (simp add: storeEdges_def)
qed


lemma covered_storeEdges_other:
  "covered (entities d) (edgeKeys d) e \<Longrightarrow>
   covered (entities (storeEdges d es)) (edgeKeys (storeEdges d es)) e"
proof (induction es rule: rev_induct)
  case Nil
  then show ?case by (simp add: storeEdges_def)
next
  case (snoc x es)
  then show ?case
    unfolding storeEdges_snoc using covered_after_other by blast
qed

lemma storeReturned_snoc:
  "storeReturned P db (cs @ [c]) =
     (case P c of Inl err \<Rightarrow> storeReturned P db cs | Inr edges \<Rightarrow> storeEdges (storeReturned P db cs) edges)"
  by (cases "P c") (simp_all add: storeReturned_def)

lemma returned_edges_covered:
  "x \<in> set cs \<Longrightarrow> P x = Inr es \<Longrightarrow> e \<in> set es \<Longrightarrow>
   covered (entities (storeReturned P db cs)) (edgeKeys (storeReturned P db cs)) e"
proof (induction cs rule: rev_induct)
  case Nil
  then show ?case by simp
next
  case (snoc c cs)
  show ?case
  proof (cases "P c")
    case (Inl err)
    with snoc show ?thesis by (auto simp: storeReturned_snoc)
  next
    case (Inr es')
    show ?thesis
    proof (cases "x \<in> set cs")
      case True
      from snoc.IH [OF True snoc.prems(2,3)] show ?thesis
        by (simp add: storeReturned_snoc Inr covered_storeEdges_other)
    next
      case False
      with snoc.prems(1) have "x = c" by simp
      with Inr snoc.prems(2) have "es' = es" by simp
      with snoc.prems(3) all_covered_after [of es "storeReturned P db cs"] show ?thesis
        by (simp add: storeReturned_snoc Inr)
    qed
  qed
qed

lemma returned_edges_absorbed:
  assumes "x \<in> set cs" "P x = Inr es"
  shows "entities (storeEdges (storeReturned P db cs) es) = entities (storeReturned P db cs) \<and>
         edgeKeys (storeEdges (storeReturned P db cs) es) = edgeKeys (storeReturned P db cs)"
proof -
  have "\<forall>e \<in> set es. covered (entities (storeReturned P db cs)) (edgeKeys (storeReturned P db cs)) e"
    using returned_edges_covered [of x cs P es _ db] assms by blast
  then show ?thesis
    by (rule covered_storeEdges_same)
qed

lemma batch_size_eq:
  "0 < n \<Longrightarrow>
   nat (if (if g \<le> 0 then 100 else g) > int n then int n else (if g \<le> 0 then 100 else g))
     = min (if g \<le> 0 then 100 else nat g) n"
  by auto

lemma providerCalls_Nil: "GetChunksByIDs db ids = [] \<Longrightarrow> providerCalls cfg db ids = []"
  by (simp add: providerCalls_def)

lemma ProcessGraphBatch_ok:
  assumes "\<forall>c \<in> set (providerCalls cfg db ids). \<not> isl (P c)"
  shows "\<exists>t. ProcessGraphBatch cfg P db ids = Some (storeReturned P db (providerCalls cfg db ids), t, None)"
proof (cases "GetChunksByIDs db ids = []")
  case True
  then show ?thesis
    by (simp add: ProcessGraphBatch_def providerCalls_Nil storeReturned_def)
next
  case False
  then have ne: "ids \<noteq> []" by (auto simp: GetChunksByIDs_def)
  define n where "n = length (GetChunksByIDs db ids)"
  define bs where "bs = min (if GraphBatchSize cfg \<le> 0 then 100 else nat (GraphBatchSize cfg)) n"
  have npos: "0 < n" using False by (simp add: n_def)
  then have bspos: "0 < bs" by (auto simp: bs_def)
  have calls: "providerCalls cfg db ids = map (map toChunkInput) (subBatches bs (GetChunksByIDs db ids))"
    by (simp add: providerCalls_def bs_def n_def Let_def)
  have pgb: "ProcessGraphBatch cfg P db ids = batchLoop P bs db (GetChunksByIDs db ids) 0 0"
    using False ne batch_size_eq [OF npos, of "GraphBatchSize cfg"]
    by (simp add: ProcessGraphBatch_def Let_def bs_def n_def)
  have "\<forall>c \<in> set (subBatches bs (GetChunksByIDs db ids)). \<not> isl (P (map toChunkInput c))"
    using assms by (simp add: calls)
  from batchLoop_all_ok [OF bspos this, of db 0 0] show ?thesis
    by (simp add: pgb calls)
qed

lemma ProcessGraphBatch_fail:
  assumes "providerCalls cfg db ids = pre @ c # rest" "\<forall>x \<in> set pre. \<not> isl (P x)" "isl (P c)"
  shows "\<exists>t err. ProcessGraphBatch cfg P db ids = Some (storeReturned P db pre, t, Some err)"
proof -
  have False: "GetChunksByIDs db ids \<noteq> []"
    using assms(1) providerCalls_Nil [of db ids cfg] by auto
  then have ne: "ids \<noteq> []" by (auto simp: GetChunksByIDs_def)
  define n where "n = length (GetChunksByIDs db ids)"
  define bs where "bs = min (if GraphBatchSize cfg \<le> 0 then 100 else nat (GraphBatchSize cfg)) n"
  have npos: "0 < n" using False by (simp add: n_def)
  then have bspos: "0 < bs" by (auto simp: bs_def)
  have calls: "providerCalls cfg db ids = map (map toChunkInput) (subBatches bs (GetChunksByIDs db ids))"
    by (simp add: providerCalls_def bs_def n_def Let_def)
  have pgb: "ProcessGraphBatch cfg P db ids = batchLoop P bs db (GetChunksByIDs db ids) 0 0"
    using False ne batch_size_eq [OF npos, of "GraphBatchSize cfg"]
    by (simp add: ProcessGraphBatch_def Let_def bs_def n_def)
  from batchLoop_first_failure [OF bspos assms(1) [unfolded calls] assms(2,3), of db 0 0]
  show ?thesis by (simp add: pgb)
qed

lemma graphExtracted_storeReturned [simp]:
  "graphExtracted (storeReturned P db cs) i = graphExtracted db i"
  by (simp add: graphExtracted_def)

text \<open>
  C5. Let the batch be the chunk ids that the graph worker drains in one tick, and the
  provider calls of the batch the sub-batches of its fetched chunks. The tick returns, and:
  if every provider call succeeds, every chunk id of the batch is marked extracted, by the
  one transaction that follows the storing of all returned edges; if some provider call
  returns an error, no chunk id of the batch is marked extracted; the store is then the
  one left by the sub-batches before the first failing call, and storing again what any
  of them returned adds no entity row and no edge key.
\<close>

theorem C5_extraction_watermark:
  assumes batch: "chunkIDs = GetChunksNeedingGraphExtraction db gwBatchSize"
  shows "\<exists>db'. processChunks gwBatchSize cfg P db now = Some db' \<and>
     ((\<forall>c \<in> set (providerCalls cfg db chunkIDs). \<not> isl (P c)) \<longrightarrow>
        (\<forall>i \<in> set chunkIDs. graphExtracted db' i) \<and>
        db' = MarkChunksGraphExtracted (storeReturned P db (providerCalls cfg db chunkIDs)) chunkIDs now) \<and>
     ((\<exists>c \<in> set (providerCalls cfg db chunkIDs). isl (P c)) \<longrightarrow>
        (\<forall>i \<in> set chunkIDs. \<not> graphExtracted db' i)) \<and>
     (\<forall>pre c rest.
        providerCalls cfg db chunkIDs = pre @ c # rest \<and> (\<forall>x \<in> set pre. \<not> isl (P x)) \<and> isl (P c) \<longrightarrow>
        db' = storeReturned P db pre \<and>
        (\<forall>x \<in> set pre. \<forall>es. P x = Inr es \<longrightarrow>
           entities (storeEdges db' es) = entities db' \<and> edgeKeys (storeEdges db' es) = edgeKeys db'))"
proof (cases "\<exists>c \<in> set (providerCalls cfg db chunkIDs). isl (P c)")
  case False
  then have ok: "\<forall>c \<in> set (providerCalls cfg db chunkIDs). \<not> isl (P c)" by simp
  from ProcessGraphBatch_ok [OF ok] obtain t where
    pgb: "ProcessGraphBatch cfg P db chunkIDs =
            Some (storeReturned P db (providerCalls cfg db chunkIDs), t, None)"
    by blast
  define db' where
    "db' = MarkChunksGraphExtracted (storeReturned P db (providerCalls cfg db chunkIDs)) chunkIDs now"
  have run: "processChunks gwBatchSize cfg P db now = Some db'"
  proof (cases "chunkIDs = []")
    case True
    then show ?thesis
      using batch by (simp add: processChunks_def db'_def MarkChunksGraphExtracted_def
          providerCalls_def GetChunksByIDs_def storeReturned_def)
  next
    case False
    then show ?thesis
      using batch pgb by (simp add: processChunks_def db'_def Let_def)
  qed
  have marked: "\<forall>i \<in> set chunkIDs. graphExtracted db' i"
    by (simp add: db'_def graphExtracted_Mark)
  have nofail: "\<not> (providerCalls cfg db chunkIDs = pre @ c # rest \<and> (\<forall>x \<in> set pre. \<not> isl (P x)) \<and> isl (P c))"
    for pre c rest using ok by auto
  show ?thesis
    using run marked False nofail db'_def by blast
next
  case True
  then obtain pre c rest where dec: "providerCalls cfg db chunkIDs = pre @ c # rest"
      "\<forall>x \<in> set pre. \<not> isl (P x)" "isl (P c)"
    using split_list_first_prop [of "providerCalls cfg db chunkIDs" "\<lambda>c. isl (P c)"] by blast
  from ProcessGraphBatch_fail [OF dec] obtain t err where
    pgb: "ProcessGraphBatch cfg P db chunkIDs = Some (storeReturned P db pre, t, Some err)" by blast
  have ne: "chunkIDs \<noteq> []"
    using dec(1) by (auto simp: providerCalls_def GetChunksByIDs_def)
  define db' where "db' = storeReturned P db pre"
  have run: "processChunks gwBatchSize cfg P db now = Some db'"
    using batch pgb ne by (simp add: processChunks_def db'_def Let_def)
  have unmarked: "\<forall>i \<in> set chunkIDs. \<not> graphExtracted db' i"
    using needing_not_extracted [of _ db gwBatchSize] batch by (simp add: db'_def)
  have uniq: "db' = storeReturned P db pre' \<and>
        (\<forall>x \<in> set pre'. \<forall>es. P x = Inr es \<longrightarrow>
           entities (storeEdges db' es) = entities db' \<and> edgeKeys (storeEdges db' es) = edgeKeys db')"
    if "providerCalls cfg db chunkIDs = pre' @ c' # rest'" "\<forall>x \<in> set pre'. \<not> isl (P x)" "isl (P c')"
    for pre' c' rest'
  proof -
    from ProcessGraphBatch_fail [OF that] pgb have eq: "db' = storeReturned P db pre'"
      by (auto simp: db'_def)
    show ?thesis
      using eq returned_edges_absorbed [of _ pre' P _ db] by blast
  qed
  show ?thesis
    using run unmarked True uniq by blast
qed

theorem C5_extraction_watermark_witness:
  "[1, 2] = GetChunksNeedingGraphExtraction sample_db 150 \<and>
   providerCalls sample_graph_cfg sample_db [1, 2] =
     [[sample_chunk_input 1 ''first'']] @ [sample_chunk_input 2 ''second''] # [] \<and>
   \<not> isl (sample_failing_provider [sample_chunk_input 1 ''first'']) \<and>
   isl (sample_failing_provider [sample_chunk_input 2 ''second'']) \<and>
   sample_failing_provider [sample_chunk_input 1 ''first''] = Inr (sample_edges [sample_chunk_input 1 ''first'']) \<and>
   (\<exists>db'. processChunks 150 sample_graph_cfg sample_failing_provider sample_db 7 = Some db' \<and>
      \<not> graphExtracted db' 1 \<and> \<not> graphExtracted db' 2 \<and>
      db' = storeReturned sample_failing_provider sample_db [[sample_chunk_input 1 ''first'']] \<and>
      length (entities db') = 2 \<and>
      entities (storeEdges db' (sample_edges [sample_chunk_input 1 ''first''])) = entities db' \<and>
      edgeKeys (storeEdges db' (sample_edges [sample_chunk_input 1 ''first''])) = edgeKeys db') \<and>
   list_all (\<lambda>c. \<not> isl (sample_provider c)) (providerCalls sample_graph_cfg sample_db [1, 2]) \<and>
   (\<exists>db'. processChunks 150 sample_graph_cfg sample_provider sample_db 7 = Some db' \<and>
      graphExtracted db' 1 \<and> graphExtracted db' 2)"
proof -
  let ?c1 = "sample_chunk_input 1 ''first''" and ?c2 = "sample_chunk_input 2 ''second''"
  have h1: "[1, 2] = GetChunksNeedingGraphExtraction sample_db 150" by code_simp
  have h2: "providerCalls sample_graph_cfg sample_db [1, 2] = [[?c1]] @ [?c2] # []" by code_simp
  have h3: "\<not> isl (sample_failing_provider [?c1])" by code_simp
  have h4: "isl (sample_failing_provider [?c2])" by code_simp
  have h5: "sample_failing_provider [?c1] = Inr (sample_edges [?c1])" by code_simp
  have h6: "\<forall>c \<in> set (providerCalls sample_graph_cfg sample_db [1, 2]). \<not> isl (sample_provider c)"
    by (simp add: sample_provider_def)
  have h6': "list_all (\<lambda>c. \<not> isl (sample_provider c)) (providerCalls sample_graph_cfg sample_db [1, 2])"
    using h6 by (simp add: list_all_iff)
  have h7: "length (entities (storeReturned sample_failing_provider sample_db [[?c1]])) = 2" by code_simp
  have pre: "\<forall>x \<in> set [[?c1]]. \<not> isl (sample_failing_provider x)" using h3 by simp
  have ex: "\<exists>c \<in> set (providerCalls sample_graph_cfg sample_db [1, 2]). isl (sample_failing_provider c)"
    using h4 by (simp add: h2)
  obtain db1 where d1: "processChunks 150 sample_graph_cfg sample_failing_provider sample_db 7 = Some db1"
    and f1: "(\<exists>c \<in> set (providerCalls sample_graph_cfg sample_db [1, 2]). isl (sample_failing_provider c)) \<longrightarrow>
        (\<forall>i \<in> set [1, 2]. \<not> graphExtracted db1 i)"
    and f2: "\<forall>pre c rest.
        providerCalls sample_graph_cfg sample_db [1, 2] = pre @ c # rest \<and>
        (\<forall>x \<in> set pre. \<not> isl (sample_failing_provider x)) \<and> isl (sample_failing_provider c) \<longrightarrow>
        db1 = storeReturned sample_failing_provider sample_db pre \<and>
        (\<forall>x \<in> set pre. \<forall>es. sample_failing_provider x = Inr es \<longrightarrow>
           entities (storeEdges db1 es) = entities db1 \<and> edgeKeys (storeEdges db1 es) = edgeKeys db1)"
    using C5_extraction_watermark [OF h1, of sample_graph_cfg sample_failing_provider 7] by blast
  from f1 ex have u: "\<not> graphExtracted db1 1 \<and> \<not> graphExtracted db1 2" by simp
  from f2 h2 pre h4 have r: "db1 = storeReturned sample_failing_provider sample_db [[?c1]] \<and>
        (\<forall>x \<in> set [[?c1]]. \<forall>es. sample_failing_provider x = Inr es \<longrightarrow>
           entities (storeEdges db1 es) = entities db1 \<and> edgeKeys (storeEdges db1 es) = edgeKeys db1)"
    by blast
  then have r2: "\<forall>es. sample_failing_provider [?c1] = Inr es \<longrightarrow>
           entities (storeEdges db1 es) = entities db1 \<and> edgeKeys (storeEdges db1 es) = edgeKeys db1"
    by (metis list.set_intros(1))
  from r2 h5 have a: "entities (storeEdges db1 (sample_edges [?c1])) = entities db1 \<and>
      edgeKeys (storeEdges db1 (sample_edges [?c1])) = edgeKeys db1" by blast
  obtain db2 where d2: "processChunks 150 sample_graph_cfg sample_provider sample_db 7 = Some db2"
    and s1: "(\<forall>c \<in> set (providerCalls sample_graph_cfg sample_db [1, 2]). \<not> isl (sample_provider c)) \<longrightarrow>
        (\<forall>i \<in> set [1, 2]. graphExtracted db2 i)"
    using C5_extraction_watermark [OF h1, of sample_graph_cfg sample_provider 7] by blast
  from s1 h6 have m: "graphExtracted db2 1 \<and> graphExtracted db2 2" by simp
  have first: "\<exists>db'. processChunks 150 sample_graph_cfg sample_failing_provider sample_db 7 = Some db' \<and>
      \<not> graphExtracted db' 1 \<and> \<not> graphExtracted db' 2 \<and>
      db' = storeReturned sample_failing_provider sample_db [[?c1]] \<and>
      length (entities db') = 2 \<and>
      entities (storeEdges db' (sample_edges [?c1])) = entities db' \<and>
      edgeKeys (storeEdges db' (sample_edges [?c1])) = edgeKeys db'"
    using d1 u r a h7 by blast
  have second: "\<exists>db'. processChunks 150 sample_graph_cfg sample_provider sample_db 7 = Some db' \<and>
      graphExtracted db' 1 \<and> graphExtracted db' 2"
    using d2 m by blast
  show ?thesis
    by (intro conjI) (fact h1, fact h2, fact h3, fact h4, fact h5, fact first, fact h6', fact second)
qed

subsection \<open>C6: the order of GetChunksByIDs\<close>

text \<open>
  C6, as stated: for a non-empty id list \<open>GetChunksByIDs\<close> returns the matching chunks in
  the caller's order. It fails: the query ends in \<open>ORDER BY v.chunk_id\<close>, so the ids
  \<open>[2, 1]\<close> come back as \<open>[1, 2]\<close>.
\<close>

theorem C6_caller_order_counterexample:
  "map cwp_ChunkID (GetChunksByIDs sample_db [2, 1]) = [1, 2] \<and>
   map cwp_ChunkID (GetChunksByIDs sample_db [2, 1]) \<noteq> [2, 1]"
  by (simp add: GetChunksByIDs_def sample_db_def emptyDB_def chunksJoinFiles_def
      List.map_filter_def GetFileByID_def toChunkWithPath_def)

text \<open>
  C6, amended: for every id list, \<open>GetChunksByIDs\<close> returns exactly the chunk rows whose id
  is in the list and whose file row exists, each as often as it is stored, in ascending
  order of chunk id, whatever the order of the caller's list.
\<close>

theorem C6_result_sorted_by_chunk_id:
  "sorted (map cwp_ChunkID (GetChunksByIDs db chunkIDs)) \<and>
   mset (GetChunksByIDs db chunkIDs) =
     image_mset toChunkWithPath
       (filter_mset (\<lambda>vf. chunk_ChunkID (fst vf) \<in> set chunkIDs) (mset (chunksJoinFiles db)))"
proof -
  have ids: "map cwp_ChunkID (map toChunkWithPath xs) = map (\<lambda>vf. chunk_ChunkID (fst vf)) xs" for xs
    by (simp add: toChunkWithPath_def)
  have "sorted (map cwp_ChunkID (GetChunksByIDs db chunkIDs))"
    by (simp add: GetChunksByIDs_def ids del: map_map)
  moreover have "mset (GetChunksByIDs db chunkIDs) =
     image_mset toChunkWithPath
       (filter_mset (\<lambda>vf. chunk_ChunkID (fst vf) \<in> set chunkIDs) (mset (chunksJoinFiles db)))"
    by (simp add: GetChunksByIDs_def)
  ultimately show ?thesis by simp
qed

subsection \<open>C7: the file filter\<close>

lemma matchesAny_iff:
  "matchesAny MatchString patterns absPath \<longleftrightarrow> (\<exists>p \<in> set patterns. MatchString p absPath = Some True)"
  by (induction patterns) (auto split: option.splits)

text \<open>
  C7. For an absolute path \<open>P\<close> (normalised to \<open>P'\<close> by \<open>filepath.Abs\<close>), a blacklist \<open>B\<close>
  and a whitelist \<open>W\<close>, the file filter returns no error and admits \<open>P\<close> if and only if
  no pattern of \<open>B\<close> matches or some pattern of \<open>W\<close> matches; an empty blacklist admits
  every path, and a path matching both a blacklist and a whitelist pattern is admitted.
\<close>

theorem C7_file_filter_admits_iff:
  assumes "Abs P = Some P'"
  shows "ShouldIndexFile Abs MatchString P B W =
           Inr ((\<forall>b \<in> set B. MatchString b P' \<noteq> Some True) \<or> (\<exists>w \<in> set W. MatchString w P' = Some True))
         \<and> ShouldIndexFile Abs MatchString P [] W = Inr True
         \<and> ((\<exists>b \<in> set B. MatchString b P' = Some True) \<and> (\<exists>w \<in> set W. MatchString w P' = Some True)
              \<longrightarrow> ShouldIndexFile Abs MatchString P B W = Inr True)"
  using assms by (auto simp: ShouldIndexFile_def matchesAny_iff)

theorem C7_file_filter_witness:
  "sample_Abs ''/home/user/project/important.secret'' = Some ''/home/user/project/important.secret'' \<and>
   ShouldIndexFile sample_Abs sample_MatchString ''/home/user/project/important.secret''
     [''(bad'', ''.secret''] [''important.secret''] = Inr True \<and>
   ShouldIndexFile sample_Abs sample_MatchString ''/home/user/project/important.secret''
     [] [''important.secret''] = Inr True \<and>
   sample_MatchString ''.secret'' ''/home/user/project/important.secret'' = Some True \<and>
   sample_MatchString ''important.secret'' ''/home/user/project/important.secret'' = Some True"
proof -
  have h: "sample_Abs ''/home/user/project/important.secret'' = Some ''/home/user/project/important.secret''"
    by (simp add: sample_Abs_def)
  show ?thesis
    using h C7_file_filter_admits_iff [where Abs = sample_Abs and MatchString = sample_MatchString
        and P = "''/home/user/project/important.secret''"
        and P' = "''/home/user/project/important.secret''"
        and B = "[''(bad'', ''.secret'']" and W = "[''important.secret'']"]
    by (simp add: sample_MatchString_def HasPrefix_def HasSuffix_def)
qed

subsection \<open>C8: partial parses of the provider response\<close>

lemma fence_skip_eq:
  "(HasPrefix line ''```'' \<or> HasPrefix line ''`'' \<or> line = ''```json'' \<or> line = ''```'')
     = HasPrefix line ''`''"
  by (cases line) (auto simp: HasPrefix_def)

lemma parseLines_Cons:
  "parseLines Unmarshal chunkMapping lineNum (l # ls) =
     (let rest = parseLines Unmarshal chunkMapping (lineNum + 1) ls in
      if skippedLine l then rest
      else (case Unmarshal (TrimSpace l) of
              None \<Rightarrow> (fst rest, (lineNum + 1, UnmarshalError) # snd rest)
            | Some parsed \<Rightarrow>
                (case chunkMapping (pl_Chunk parsed) of
                   None \<Rightarrow> (fst rest, (lineNum + 1, InvalidChunkNumber (pl_Chunk parsed)) # snd rest)
                 | Some metadata \<Rightarrow> (mkEdge parsed metadata # fst rest, snd rest))))"
  unfolding parseLines.simps skippedLine_def Let_def fence_skip_eq [of "TrimSpace l"]
  by simp

lemma parseLines_edges:
  "fst (parseLines Unmarshal chunkMapping lineNum ls) =
     List.map_filter (validEdge Unmarshal chunkMapping) ls"
proof (induction ls arbitrary: lineNum)
  case Nil
  show ?case by (simp add: List.map_filter_simps)
next
  case (Cons l ls)
  show ?case
    unfolding parseLines_Cons
    by (simp add: Cons.IH List.map_filter_simps Let_def validEdge_def split: option.splits)
qed

lemma parseLines_errors:
  "snd (parseLines Unmarshal chunkMapping lineNum ls) \<noteq> [] \<longleftrightarrow>
     (\<exists>l \<in> set ls. parseErrorLine Unmarshal chunkMapping l)"
proof (induction ls arbitrary: lineNum)
  case Nil
  show ?case by simp
next
  case (Cons l ls)
  show ?case
    unfolding parseLines_Cons
    by (simp add: Cons.IH Let_def parseErrorLine_def split: option.splits)
qed

lemma map_filter_Nil_iff: "List.map_filter f xs = [] \<longleftrightarrow> (\<forall>x \<in> set xs. f x = None)"
  by (induction xs) (auto simp: List.map_filter_simps split: option.splits)

lemma ParseJSONL_cases:
  "ParseJSONL Unmarshal response chunkMapping =
     (if validEdges Unmarshal chunkMapping response \<noteq> []
      then Inr (validEdges Unmarshal chunkMapping response)
      else if \<exists>l \<in> set (responseLines response). parseErrorLine Unmarshal chunkMapping l
      then Inl (FailedToParseJSONL
                 (take 5 (snd (parseLines Unmarshal chunkMapping 0 (responseLines response)))))
      else Inr [])"
proof -
  have tk: "take (min 5 (length xs)) xs = take 5 xs" for xs :: "(nat \<times> line_error) list"
    by (simp add: min_def)
  show ?thesis
    using parseLines_errors [of Unmarshal chunkMapping 0 "responseLines response"]
    by (simp add: ParseJSONL_def Let_def parseLines_edges validEdges_def responseLines_def tk)
qed

text \<open>
  C8. For every provider response and chunk mapping: whenever at least one line of the
  (fence-stripped) response parses to a valid edge with a known chunk number,
  \<open>ParseJSONL\<close> returns the valid edges, in line order, and no error; it returns an error
  exactly when no line gave a valid edge and at least one line was a parse error; and
  whenever it returns no error, what it returns is the list of valid edges.
\<close>

theorem C8_ParseJSONL_partial_success:
  "((\<exists>l \<in> set (responseLines response). validEdge Unmarshal chunkMapping l \<noteq> None) \<longrightarrow>
      ParseJSONL Unmarshal response chunkMapping = Inr (validEdges Unmarshal chunkMapping response)) \<and>
   (isl (ParseJSONL Unmarshal response chunkMapping) \<longleftrightarrow>
      (\<forall>l \<in> set (responseLines response). validEdge Unmarshal chunkMapping l = None) \<and>
      (\<exists>l \<in> set (responseLines response). parseErrorLine Unmarshal chunkMapping l)) \<and>
   (\<not> isl (ParseJSONL Unmarshal response chunkMapping) \<longrightarrow>
      ParseJSONL Unmarshal response chunkMapping = Inr (validEdges Unmarshal chunkMapping response))"
proof -
  have nil: "(\<forall>l \<in> set (responseLines response). validEdge Unmarshal chunkMapping l = None) \<longleftrightarrow>
             validEdges Unmarshal chunkMapping response = []"
    by (simp add: validEdges_def map_filter_Nil_iff)
  have ex: "(\<exists>l \<in> set (responseLines response). validEdge Unmarshal chunkMapping l \<noteq> None) \<longleftrightarrow>
            validEdges Unmarshal chunkMapping response \<noteq> []"
    unfolding nil [symmetric] by simp
  show ?thesis
    unfolding nil ex
    by (simp add: ParseJSONL_cases [of Unmarshal response chunkMapping])
qed

theorem C8_ParseJSONL_witness:
  "(\<exists>l \<in> set (responseLines sample_response). validEdge sample_Unmarshal sample_mapping l \<noteq> None) \<and>
   (\<exists>l \<in> set (responseLines sample_response). parseErrorLine sample_Unmarshal sample_mapping l) \<and>
   ParseJSONL sample_Unmarshal sample_response sample_mapping =
     Inr [\<lparr> Source = ''main'', SourceType = ''FUNCTION'', Target = ''run'', TargetType = ''FUNCTION'',
            RelationType = ''calls'', ewm_ChunkID = 41, ewm_FileID = 3 \<rparr>] \<and>
   validEdges sample_Unmarshal sample_mapping '' {x} '' = [] \<and>
   (\<exists>l \<in> set (responseLines '' {x} ''). parseErrorLine sample_Unmarshal sample_mapping l) \<and>
   isl (ParseJSONL sample_Unmarshal '' {x} '' sample_mapping)"
proof -
  have v: "\<exists>l \<in> set (responseLines sample_response). validEdge sample_Unmarshal sample_mapping l \<noteq> None"
    by code_simp
  have p: "\<exists>l \<in> set (responseLines sample_response). parseErrorLine sample_Unmarshal sample_mapping l"
    by code_simp
  have e: "validEdges sample_Unmarshal sample_mapping sample_response =
             [\<lparr> Source = ''main'', SourceType = ''FUNCTION'', Target = ''run'', TargetType = ''FUNCTION'',
                RelationType = ''calls'', ewm_ChunkID = 41, ewm_FileID = 3 \<rparr>]"
    by code_simp
  have n: "\<forall>l \<in> set (responseLines '' {x} ''). validEdge sample_Unmarshal sample_mapping l = None"
    by code_simp
  have n0: "validEdges sample_Unmarshal sample_mapping '' {x} '' = []"
    by code_simp
  have q: "\<exists>l \<in> set (responseLines '' {x} ''). parseErrorLine sample_Unmarshal sample_mapping l"
    by code_simp
  have r1: "ParseJSONL sample_Unmarshal sample_response sample_mapping =
              Inr (validEdges sample_Unmarshal sample_mapping sample_response)"
    using v C8_ParseJSONL_partial_success [of sample_response sample_Unmarshal sample_mapping]
    by blast
  have r2: "isl (ParseJSONL sample_Unmarshal '' {x} '' sample_mapping)"
    using n q C8_ParseJSONL_partial_success [of "'' {x} ''" sample_Unmarshal sample_mapping]
    by blast
  note r3 = r1 [unfolded e]
  show ?thesis
    by (intro conjI) (fact v, fact p, fact r3, fact n0, fact q, fact r2)
qed

subsection \<open>C9: GetNeighbors is a stub, the expanded search is the plain search\<close>

lemma expandResults_plain: "expandResults db maxDepth pathFilter rs = Inr rs"
  by (induction rs) (simp_all add: GetNeighbors_def)

lemma scanRows_no_related:
  "scanRows rows = Inr rs \<Longrightarrow> list_all (\<lambda>r. sr_RelatedChunks r = []) rs"
proof (induction rows arbitrary: rs rule: scanRows.induct)
  case 1
  then show ?case by simp
next
  case (2 c rows)
  then show ?case by simp
next
  case (3 c distance rows)
  then show ?case by (auto split: sum.splits)
qed

lemma SearchSimilar_no_related:
  "SearchSimilar eng db q limit pathFilter = Inr rs \<Longrightarrow> list_all (\<lambda>r. sr_RelatedChunks r = []) rs"
  by (auto simp: SearchSimilar_def Let_def scanRows_no_related split: if_splits sum.splits)

text \<open>
  C9. \<open>GetNeighbors\<close> returns the empty list and no error for every options value; so
  \<open>SearchWithRelations\<close> returns what \<open>SearchSimilar\<close> returns for the same embedding,
  limit and path filter (the same error, or the same ranked results), whatever the depth,
  and every result's related-chunks list is empty.
\<close>

theorem C9_expanded_search_is_plain_search:
  "GetNeighbors db opts = Inr [] \<and>
   SearchWithRelations eng db q limit maxDepth pathFilter =
     map_sum DBError id (SearchSimilar eng db q limit pathFilter) \<and>
   (\<forall>rs. SearchWithRelations eng db q limit maxDepth pathFilter = Inr rs \<longrightarrow>
          list_all (\<lambda>r. sr_RelatedChunks r = []) rs)"
proof (cases "SearchSimilar eng db q limit pathFilter")
  case (Inl e)
  then show ?thesis
    by (simp add: SearchWithRelations_def GetNeighbors_def)
next
  case (Inr rs)
  then show ?thesis
    using SearchSimilar_no_related [OF Inr]
    by (simp add: SearchWithRelations_def GetNeighbors_def expandResults_plain)
qed

theorem C9_expanded_search_witness:
  "\<exists>r1 r2. SearchWithRelations sample_engine sample_db [1, 0] 5 2 [] = Inr [r1, r2] \<and>
     SearchSimilar sample_engine sample_db [1, 0] 5 [] = Inr [r1, r2] \<and>
     chunk_ChunkID (sr_Chunk r1) = 1 \<and> chunk_ChunkID (sr_Chunk r2) = 2 \<and>
     sr_RelatedChunks r1 = [] \<and> sr_RelatedChunks r2 = []"
proof -
  obtain rs where e: "SearchSimilar sample_engine sample_db [1, 0] 5 [] = Inr rs"
    and ids: "map (\<lambda>r. chunk_ChunkID (sr_Chunk r)) rs = [1, 2]"
  proof
    show "SearchSimilar sample_engine sample_db [1, 0] 5 [] = Inr (sample_results)"
      by code_simp
    show "map (\<lambda>r. chunk_ChunkID (sr_Chunk r)) sample_results = [1, 2]"
      by (simp add: sample_results_def)
  qed
  from ids obtain r1 r2 where rs: "rs = [r1, r2]"
    and i: "chunk_ChunkID (sr_Chunk r1) = 1" "chunk_ChunkID (sr_Chunk r2) = 2"
    by (cases rs; cases "tl rs"; cases "tl (tl rs)") auto
  note t = C9_expanded_search_is_plain_search [of sample_db
      "\<lparr> gno_ChunkID = 1, gno_MaxDepth = 2, gno_MinWeight = 0, gno_Limit = 5 \<rparr>"
      sample_engine "[1, 0]" 5 2 "[]"]
  from t e rs have w: "SearchWithRelations sample_engine sample_db [1, 0] 5 2 [] = Inr [r1, r2]"
    by simp
  from t w have n: "list_all (\<lambda>r. sr_RelatedChunks r = []) [r1, r2]"
    by blast
  from n have "sr_RelatedChunks r1 = []" "sr_RelatedChunks r2 = []" by simp_all
  with w e rs i show ?thesis by blast
qed

subsection \<open>C10: a non-positive limit\<close>

lemma length_queryRows: "length (queryRows eng db q k pathFilter) \<le> k"
proof -
  have "length (queryRows eng db q k pathFilter) \<le> length (knnRows eng db q k)"
    by (simp add: queryRows_def)
  also have "\<dots> \<le> k"
    by (simp add: knnRows_def)
  finally show ?thesis .
qed

lemma sorted_queryRows: "sorted (map snd (queryRows eng db q k pathFilter))"
  by (simp add: queryRows_def)

lemma scanRows_fails_iff: "isl (scanRows rows) \<longleftrightarrow> (\<exists>cd \<in> set rows. snd cd = None)"
proof (induction rows rule: scanRows.induct)
  case 1
  show ?case by simp
next
  case (2 c rows)
  show ?case by simp
next
  case (3 c distance rows)
  then show ?case by (cases "scanRows rows") auto
qed

lemma scanRows_rows:
  "scanRows rows = Inr rs \<Longrightarrow>
   map (\<lambda>r. (sr_Chunk r, Some (sr_Distance r))) rs =
     map (\<lambda>cd. ((fst cd)\<lparr> chunk_Embedding := [] \<rparr>, snd cd)) rows"
proof (induction rows arbitrary: rs rule: scanRows.induct)
  case 1
  then show ?case by simp
next
  case (2 c rows)
  then show ?case by simp
next
  case (3 c distance rows)
  then show ?case by (cases "scanRows rows") auto
qed

lemma sorted_Some: "sorted (map Some xs) \<longleftrightarrow> sorted (xs :: real list)"
  by (induction xs) auto

lemma scanRows_sorted:
  assumes "scanRows rows = Inr rs" "sorted (map snd rows)"
  shows "sorted (map sr_Distance rs)"
proof -
  have "map snd (map (\<lambda>r. (sr_Chunk r, Some (sr_Distance r))) rs) =
        map snd (map (\<lambda>cd. ((fst cd)\<lparr> chunk_Embedding := [] \<rparr>, snd cd)) rows)"
    using scanRows_rows [OF assms(1)] by simp
  then have "map Some (map sr_Distance rs) = map snd rows"
    by (simp add: comp_def)
  with assms(2) show ?thesis
    using sorted_Some [of "map sr_Distance rs"] by simp
qed

lemma scanRows_length:
  assumes "scanRows rows = Inr rs"
  shows "length rs = length rows"
proof -
  have "length (map (\<lambda>r. (sr_Chunk r, Some (sr_Distance r))) rs) =
        length (map (\<lambda>cd. ((fst cd)\<lparr> chunk_Embedding := [] \<rparr>, snd cd)) rows)"
    using scanRows_rows [OF assms] by (rule arg_cong)
  then show ?thesis
    by (simp only: length_map)
qed

text \<open>
  C10. For a query embedding of the stored dimension and a limit \<open>k \<le> 0\<close>,
  \<open>SearchSimilar\<close> returns no error on account of \<open>k\<close>: it answers exactly as it does for
  the limit 10. It returns an error only when the query with \<open>k = 10\<close> fails in the engine
  (the vector is not serialised, the statement does not execute, a row has a NULL
  distance, the iteration fails), and otherwise it returns the rows of that query: at
  most 10 results, in ascending order of distance.
\<close>

theorem C10_nonpositive_limit_defaults_to_ten:
  assumes "limit \<le> 0" and "length q = embeddingDim db"
  shows "SearchSimilar eng db q limit pathFilter = SearchSimilar eng db q 10 pathFilter \<and>
         (isl (SearchSimilar eng db q limit pathFilter) \<longleftrightarrow>
            serialize_fails eng q \<or> query_fails eng \<or> rows_fail eng \<or>
            (\<exists>cd \<in> set (queryRows eng db q 10 pathFilter). snd cd = None)) \<and>
         (\<forall>rs. SearchSimilar eng db q limit pathFilter = Inr rs \<longrightarrow>
            length rs \<le> 10 \<and> sorted (map sr_Distance rs) \<and>
            map (\<lambda>r. (sr_Chunk r, Some (sr_Distance r))) rs =
              map (\<lambda>cd. ((fst cd)\<lparr> chunk_Embedding := [] \<rparr>, snd cd)) (queryRows eng db q 10 pathFilter))"
proof -
  let ?rows = "queryRows eng db q 10 pathFilter"
  have same: "SearchSimilar eng db q limit pathFilter = SearchSimilar eng db q 10 pathFilter"
    using assms(1) by (simp add: SearchSimilar_def)
  have unfold: "SearchSimilar eng db q limit pathFilter =
      (if serialize_fails eng q then Inl SerializeFailed
       else if query_fails eng then Inl QueryFailed
       else (case scanRows ?rows of
               Inl err \<Rightarrow> Inl err
             | Inr results \<Rightarrow> if rows_fail eng then Inl RowsIterationFailed else Inr results))"
    using assms by (simp add: SearchSimilar_def searchQuery_def)
  have fails: "isl (SearchSimilar eng db q limit pathFilter) \<longleftrightarrow>
      serialize_fails eng q \<or> query_fails eng \<or> rows_fail eng \<or> (\<exists>cd \<in> set ?rows. snd cd = None)"
    using scanRows_fails_iff [of ?rows]
    by (cases "scanRows ?rows") (auto simp: unfold)
  have results: "length rs \<le> 10 \<and> sorted (map sr_Distance rs) \<and>
      map (\<lambda>r. (sr_Chunk r, Some (sr_Distance r))) rs =
        map (\<lambda>cd. ((fst cd)\<lparr> chunk_Embedding := [] \<rparr>, snd cd)) ?rows"
    if "SearchSimilar eng db q limit pathFilter = Inr rs" for rs
  proof -
    from that have sc: "scanRows ?rows = Inr rs"
      by (cases "scanRows ?rows") (auto simp: unfold split: if_splits)
    show ?thesis
      using scanRows_length [OF sc] length_queryRows [of eng db q 10 pathFilter]
        scanRows_sorted [OF sc sorted_queryRows] scanRows_rows [OF sc]
      by simp
  qed
  from same fails results show ?thesis by blast
qed

theorem C10_nonpositive_limit_witness:
  "(-3 :: int) \<le> 0 \<and> length [1, 0 :: real] = embeddingDim sample_db \<and>
   SearchSimilar sample_engine sample_db [1, 0] (-3) [] = Inr sample_results \<and>
   SearchSimilar sample_engine sample_db [1, 0] 10 [] = Inr sample_results \<and>
   length sample_results \<le> 10 \<and> sorted (map sr_Distance sample_results) \<and>
   length [0, 0 :: real] = embeddingDim sample_db \<and>
   SearchSimilar sample_engine sample_db [0, 0] (-3) [] = Inl ScanError \<and>
   SearchSimilar sample_engine sample_db [0, 0] 10 [] = Inl ScanError"
proof -
  have h1: "(-3 :: int) \<le> 0" by simp
  have h2: "length [1, 0 :: real] = embeddingDim sample_db"
    by (simp add: sample_db_def emptyDB_def)
  have h3: "length [0, 0 :: real] = embeddingDim sample_db"
    by (simp add: sample_db_def emptyDB_def)
  have e1: "SearchSimilar sample_engine sample_db [1, 0] 10 [] = Inr sample_results"
    by code_simp
  have e2: "SearchSimilar sample_engine sample_db [0, 0] 10 [] = Inl ScanError"
    by code_simp
  note t1 = C10_nonpositive_limit_defaults_to_ten [OF h1 h2, of sample_engine "[]"]
  note t2 = C10_nonpositive_limit_defaults_to_ten [OF h1 h3, of sample_engine "[]"]
  from t1 have "SearchSimilar sample_engine sample_db [1, 0] (-3) [] =
      SearchSimilar sample_engine sample_db [1, 0] 10 []"
    by (rule conjunct1)
  with e1 have r1: "SearchSimilar sample_engine sample_db [1, 0] (-3) [] = Inr sample_results"
    by simp
  from t2 have "SearchSimilar sample_engine sample_db [0, 0] (-3) [] =
      SearchSimilar sample_engine sample_db [0, 0] 10 []"
    by (rule conjunct1)
  with e2 have r2: "SearchSimilar sample_engine sample_db [0, 0] (-3) [] = Inl ScanError"
    by simp
  note c = t1 [THEN conjunct2, THEN conjunct2, rule_format, OF r1]
  from c have p1: "length sample_results \<le> 10"
    by (rule conjunct1)
  from c have p2: "sorted (map sr_Distance sample_results)"
    by (rule conjunct2 [THEN conjunct1])
  show ?thesis
    by (intro conjI) (fact h1 h2 h3 e1 e2 r1 r2 p1 p2)+
qed

end
